theory Spec2Isabelle
  imports Main
begin

section \<open>Error vocabulary: errors/error.types and errors/AppError\<close>

datatype ErrorType =
    VALIDATION_ERROR
  | AUTHENTICATION_ERROR
  | AUTHORIZATION_ERROR
  | NOT_FOUND_ERROR
  | DUPLICATE_ERROR
  | DATABASE_ERROR
  | BAD_REQUEST_ERROR
  | INTERNAL_SERVER_ERROR

text \<open>
  The enum \<open>HttpStatusCode\<close> shares the member name \<open>INTERNAL_SERVER_ERROR\<close> with
  \<open>ErrorType\<close>; its members carry the prefix \<open>HTTP_\<close> here.
\<close>

datatype HttpStatusCode =
    HTTP_BAD_REQUEST
  | HTTP_UNAUTHORIZED
  | HTTP_FORBIDDEN
  | HTTP_NOT_FOUND
  | HTTP_CONFLICT
  | HTTP_UNPROCESSABLE_ENTITY
  | HTTP_INTERNAL_SERVER_ERROR

text \<open>
  Modelled from the spec: the numeric value of each \<open>HttpStatusCode\<close> member. The file
  errors/error.types.ts that declares the enum is not among the sources; the numbers are
  those of the status table in section 6 of the specification.
\<close>

fun status_number :: "HttpStatusCode \<Rightarrow> nat" where
  "status_number HTTP_BAD_REQUEST = 400"
| "status_number HTTP_UNAUTHORIZED = 401"
| "status_number HTTP_FORBIDDEN = 403"
| "status_number HTTP_NOT_FOUND = 404"
| "status_number HTTP_CONFLICT = 409"
| "status_number HTTP_UNPROCESSABLE_ENTITY = 422"
| "status_number HTTP_INTERNAL_SERVER_ERROR = 500"

text \<open>
  A JavaScript value as far as the code inspects one: \<open>undefined\<close>, a string or a
  number. \<open>truthy\<close> is the coercion that \<open>!x\<close>, \<open>x || y\<close> and \<open>x && y\<close> apply.
\<close>

datatype js_value = JUndefined | JString string | JNumber int

fun truthy :: "js_value \<Rightarrow> bool" where
  "truthy JUndefined = False"
| "truthy (JString s) = (s \<noteq> [])"
| "truthy (JNumber n) = (n \<noteq> 0)"

text \<open>
  The optional \<open>context\<close> object of an \<open>AppError\<close>: validation attaches
  \<open>{ errors }\<close>; any other object is a list of fields. An object is always truthy.
\<close>

datatype err_context = Errors "string list" | Fields "(string \<times> string) list"

text \<open>
  A native \<open>Error\<close> object: the properties the code reads (\<open>name\<close>, \<open>message\<close>,
  \<open>stack\<close> and, through \<open>(error as any).code\<close>, \<open>code\<close>). \<open>AppError extends Error\<close>
  adds its own fields.
\<close>

record Error =
  name :: string
  message :: string
  stack :: string
  code :: js_value

record AppError = Error +
  type :: ErrorType
  statusCode :: HttpStatusCode
  isOperational :: bool
  "context" :: "err_context option"

text \<open>
  \<open>Error.captureStackTrace\<close>: the first line of the trace is the error's name and
  message; the frames that follow depend on the call site and are left out.
\<close>

definition captureStackTrace :: "string \<Rightarrow> string" where
  "captureStackTrace msg = ''Error: '' @ msg"

definition new_AppError ::
  "string \<Rightarrow> ErrorType \<Rightarrow> HttpStatusCode \<Rightarrow> bool \<Rightarrow> err_context option \<Rightarrow> AppError" where
  "new_AppError msg ty sc op cx =
     \<lparr> name = ''Error'', message = msg, stack = captureStackTrace msg, code = JUndefined,
       type = ty, statusCode = sc, isOperational = op, context = cx \<rparr>"

definition badRequest :: "string \<Rightarrow> err_context option \<Rightarrow> AppError" where
  "badRequest msg cx = new_AppError msg BAD_REQUEST_ERROR HTTP_BAD_REQUEST True cx"

definition unauthorized :: "string \<Rightarrow> err_context option \<Rightarrow> AppError" where
  "unauthorized msg cx = new_AppError msg AUTHENTICATION_ERROR HTTP_UNAUTHORIZED True cx"

definition forbidden :: "string \<Rightarrow> err_context option \<Rightarrow> AppError" where
  "forbidden msg cx = new_AppError msg AUTHORIZATION_ERROR HTTP_FORBIDDEN True cx"

definition notFound :: "string \<Rightarrow> err_context option \<Rightarrow> AppError" where
  "notFound msg cx = new_AppError msg NOT_FOUND_ERROR HTTP_NOT_FOUND True cx"

definition conflict :: "string \<Rightarrow> err_context option \<Rightarrow> AppError" where
  "conflict msg cx = new_AppError msg DUPLICATE_ERROR HTTP_CONFLICT True cx"

definition validation :: "string \<Rightarrow> err_context option \<Rightarrow> AppError" where
  "validation msg cx = new_AppError msg VALIDATION_ERROR HTTP_UNPROCESSABLE_ENTITY True cx"

definition database :: "string \<Rightarrow> err_context option \<Rightarrow> AppError" where
  "database msg cx = new_AppError msg DATABASE_ERROR HTTP_INTERNAL_SERVER_ERROR True cx"

definition internal :: "string \<Rightarrow> err_context option \<Rightarrow> AppError" where
  "internal msg cx = new_AppError msg INTERNAL_SERVER_ERROR HTTP_INTERNAL_SERVER_ERROR False cx"

text \<open>
  What a \<open>throw\<close> can carry: an \<open>AppError\<close> (\<open>error instanceof AppError\<close> holds) or any
  other \<open>Error\<close> object.
\<close>

datatype thrown = App AppError | Native Error

fun thrown_message :: "thrown \<Rightarrow> string" where
  "thrown_message (App a) = message a"
| "thrown_message (Native e) = message e"

fun thrown_stack :: "thrown \<Rightarrow> string" where
  "thrown_stack (App a) = stack a"
| "thrown_stack (Native e) = stack e"

section \<open>middleware/auth.middleware\<close>

text \<open>
  The decoded payload of a token (\<open>decoded\<close> is typed \<open>any\<close>): the claims the
  middleware reads, each possibly absent.
\<close>

record claims =
  id :: "string option"
  userId :: "string option"
  email :: "string option"
  role :: "string option"

text \<open>\<open>AuthenticatedRequest.user\<close>.\<close>

record identity =
  user_id :: "string option"
  user_email :: "string option"
  user_role :: "string option"

type_synonym js_object = "(string \<times> js_value) list"

record request =
  authorization :: "string option"
  user :: "identity option"
  originalUrl :: string
  "method" :: string
  body :: js_object
  params :: js_object
  query :: js_object

text \<open>
  What \<open>jwt.verify(token, secret)\<close> throws. \<open>TokenExpiredError\<close> and \<open>NotBeforeError\<close> are
  subclasses of \<open>JsonWebTokenError\<close> in the jsonwebtoken library; \<open>OtherError\<close> stands for
  any throw outside that hierarchy.
\<close>

datatype jwt_throw =
    TokenExpiredError string
  | NotBeforeError string
  | JsonWebTokenError string
  | OtherError string

fun instanceof_TokenExpiredError :: "jwt_throw \<Rightarrow> bool" where
  "instanceof_TokenExpiredError (TokenExpiredError m) = True"
| "instanceof_TokenExpiredError e = False"

fun instanceof_JsonWebTokenError :: "jwt_throw \<Rightarrow> bool" where
  "instanceof_JsonWebTokenError (OtherError m) = False"
| "instanceof_JsonWebTokenError e = True"

text \<open>
  The library call \<open>jwt.verify(\<cdot>, config.JWT_SECRET)\<close> is a parameter of the model: a
  function from the token text to the payload or to what it throws.
\<close>

type_synonym jwt_verify = "string \<Rightarrow> jwt_throw + claims"

text \<open>\<open>a || b\<close> on optional strings: \<open>a\<close> when it is a non-empty string, otherwise \<open>b\<close>.\<close>

fun or_else :: "string option \<Rightarrow> string option \<Rightarrow> string option" where
  "or_else (Some s) b = (if s \<noteq> [] then Some s else b)"
| "or_else None b = b"

definition startsWith :: "string \<Rightarrow> string \<Rightarrow> bool" where
  "startsWith s p = (take (length p) s = p)"

definition substring :: "string \<Rightarrow> nat \<Rightarrow> string" where
  "substring s n = drop n s"

definition identity_of :: "claims \<Rightarrow> identity" where
  "identity_of decoded =
     \<lparr> user_id = or_else (id decoded) (userId decoded),
       user_email = email decoded,
       user_role = role decoded \<rparr>"

text \<open>
  \<open>authenticate\<close>: \<open>Inl\<close> is the \<open>AppError\<close> thrown, \<open>Inr\<close> the request handed to
  \<open>next()\<close>.
\<close>

definition authenticate :: "jwt_verify \<Rightarrow> request \<Rightarrow> AppError + request" where
  "authenticate verify req =
     (case authorization req of
        None \<Rightarrow> Inl (unauthorized ''Access token is required'' None)
      | Some authHeader \<Rightarrow>
          if authHeader = [] \<or> \<not> startsWith authHeader ''Bearer ''
          then Inl (unauthorized ''Access token is required'' None)
          else
            (case verify (substring authHeader 7) of
               Inr decoded \<Rightarrow> Inr (req\<lparr> user := Some (identity_of decoded) \<rparr>)
             | Inl err \<Rightarrow>
                 if instanceof_TokenExpiredError err
                 then Inl (unauthorized ''Token has expired'' None)
                 else if instanceof_JsonWebTokenError err
                 then Inl (unauthorized ''Invalid token'' None)
                 else Inl (unauthorized ''Token verification failed'' None)))"

definition optionalAuth :: "jwt_verify \<Rightarrow> request \<Rightarrow> request" where
  "optionalAuth verify req =
     (case authorization req of
        None \<Rightarrow> req
      | Some authHeader \<Rightarrow>
          if authHeader \<noteq> [] \<and> startsWith authHeader ''Bearer ''
          then (case verify (substring authHeader 7) of
                  Inr decoded \<Rightarrow> req\<lparr> user := Some (identity_of decoded) \<rparr>
                | Inl err \<Rightarrow> req)
          else req)"

text \<open>\<open>req.user.role || ''\<close>.\<close>

fun role_or_empty :: "string option \<Rightarrow> string" where
  "role_or_empty (Some r) = r"
| "role_or_empty None = []"

definition authorize :: "string list \<Rightarrow> request \<Rightarrow> AppError + request" where
  "authorize roles req =
     (case user req of
        None \<Rightarrow> Inl (unauthorized ''Authentication required'' None)
      | Some u \<Rightarrow>
          if length roles > 0 \<and> role_or_empty (user_role u) \<notin> set roles
          then Inl (forbidden ''Insufficient permissions'' None)
          else Inr req)"

definition verifyToken :: "jwt_verify \<Rightarrow> string \<Rightarrow> AppError + claims" where
  "verifyToken verify token =
     (case verify token of
        Inr decoded \<Rightarrow> Inr decoded
      | Inl err \<Rightarrow> Inl (unauthorized ''Invalid token'' None))"

section \<open>middleware/validation.middleware\<close>

text \<open>
  A Joi object schema as the middleware uses it: a list of rules, each giving the message
  of its violation on an input, or nothing when the input satisfies it.
  \<open>schema.validate(value, { abortEarly })\<close> returns no error when no rule is violated;
  otherwise \<open>error.details\<close> holds the first violation when \<open>abortEarly\<close> is set and
  every violation, in rule order, when it is not.
\<close>

type_synonym rule = "js_object \<Rightarrow> string option"

datatype ObjectSchema = ObjectSchema "rule list"

fun rules :: "ObjectSchema \<Rightarrow> rule list" where
  "rules (ObjectSchema rs) = rs"

definition schema_validate :: "ObjectSchema \<Rightarrow> js_object \<Rightarrow> bool \<Rightarrow> string list option" where
  "schema_validate s v abortEarly =
     (case List.map_filter (\<lambda>r. r v) (rules s) of
        [] \<Rightarrow> None
      | d # ds \<Rightarrow> Some (if abortEarly then [d] else d # ds))"

record schema_set =
  schema_body :: "ObjectSchema option"
  schema_params :: "ObjectSchema option"
  schema_query :: "ObjectSchema option"

text \<open>
  One of the three blocks of \<open>validate\<close>: when the schema is declared, validate the
  input with \<open>abortEarly: false\<close> and push every detail's message.
\<close>

definition push_details :: "ObjectSchema option \<Rightarrow> js_object \<Rightarrow> string list \<Rightarrow> string list" where
  "push_details s v validationErrors =
     (case s of
        None \<Rightarrow> validationErrors
      | Some sch \<Rightarrow>
          (case schema_validate sch v False of
             None \<Rightarrow> validationErrors
           | Some details \<Rightarrow> validationErrors @ details))"

definition validate :: "schema_set \<Rightarrow> request \<Rightarrow> AppError + request" where
  "validate schema req =
     (let validationErrors =
            push_details (schema_query schema) (query req)
              (push_details (schema_params schema) (params req)
                 (push_details (schema_body schema) (body req) []))
      in if length validationErrors > 0
         then Inl (validation ''Validation failed'' (Some (Errors validationErrors)))
         else Inr req)"

section \<open>errors/error.handler\<close>

text \<open>The \<open>error\<close> object of the failure envelope, and the response that carries it.\<close>

record ErrorResponse =
  error_type :: ErrorType
  error_message :: string
  error_statusCode :: HttpStatusCode
  error_timestamp :: string
  error_path :: string
  error_method :: string
  error_stack :: "string option"
  error_context :: "err_context option"

record response =
  status :: HttpStatusCode
  json :: ErrorResponse

text \<open>
  A runtime exception of the handler itself: calling \<open>.startsWith\<close> on a \<open>code\<close> that is
  not a string.
\<close>

datatype js_exception = TypeError string

text \<open>
  The chain of \<open>if / else if\<close> that picks status, type, message and context. The first
  argument is \<open>config.NODE_ENV\<close>.
\<close>

definition classify ::
  "string \<Rightarrow> thrown \<Rightarrow> js_exception + (HttpStatusCode \<times> ErrorType \<times> string \<times> err_context option)" where
  "classify NODE_ENV error =
     (case error of
        App a \<Rightarrow> Inr (statusCode a, type a, message a, context a)
      | Native e \<Rightarrow>
          if name e = ''ValidationError''
          then Inr (HTTP_UNPROCESSABLE_ENTITY, VALIDATION_ERROR,
                    (if message e \<noteq> [] then message e else ''Validation failed''), None)
          else if name e = ''CastError''
          then Inr (HTTP_BAD_REQUEST, BAD_REQUEST_ERROR, ''Invalid resource ID'', None)
          else if name e = ''JsonWebTokenError''
          then Inr (HTTP_UNAUTHORIZED, AUTHENTICATION_ERROR, ''Invalid token'', None)
          else if name e = ''TokenExpiredError''
          then Inr (HTTP_UNAUTHORIZED, AUTHENTICATION_ERROR, ''Token expired'', None)
          else if code e = JString ''ER_DUP_ENTRY''
          then Inr (HTTP_CONFLICT, DUPLICATE_ERROR, ''Duplicate entry found'', None)
          else if truthy (code e)
          then (case code e of
                  JString c \<Rightarrow>
                    if startsWith c ''ER_''
                    then Inr (HTTP_INTERNAL_SERVER_ERROR, DATABASE_ERROR,
                              (if NODE_ENV = ''production'' then ''Database error occurred''
                               else message e), None)
                    else Inr (HTTP_INTERNAL_SERVER_ERROR, INTERNAL_SERVER_ERROR,
                              ''Something went wrong!'', None)
                | _ \<Rightarrow> Inl (TypeError ''error.code.startsWith is not a function''))
          else Inr (HTTP_INTERNAL_SERVER_ERROR, INTERNAL_SERVER_ERROR,
                    ''Something went wrong!'', None))"

text \<open>
  \<open>globalErrorHandler\<close>: the arguments are \<open>config.NODE_ENV\<close>, the text of
  \<open>new Date().toISOString()\<close>, the error and the request. The call of \<open>logError\<close> writes
  to the log only and is left out. \<open>Inr\<close> is the response sent by
  \<open>res.status(statusCode).json(errorResponse)\<close>.
\<close>

definition globalErrorHandler ::
  "string \<Rightarrow> string \<Rightarrow> thrown \<Rightarrow> request \<Rightarrow> js_exception + response" where
  "globalErrorHandler NODE_ENV now error req =
     (case classify NODE_ENV error of
        Inl ex \<Rightarrow> Inl ex
      | Inr (sc, ty, msg, cx) \<Rightarrow>
          Inr \<lparr> status = sc,
                json = \<lparr> error_type = ty, error_message = msg, error_statusCode = sc,
                         error_timestamp = now, error_path = originalUrl req,
                         error_method = method req,
                         error_stack = (if NODE_ENV = ''development''
                                        then Some (thrown_stack error) else None),
                         error_context = cx \<rparr> \<rparr>)"

section \<open>db/connection, db/query.executor, db/transaction.helper\<close>

subsection \<open>The driver and the world the storage layer runs in\<close>

text \<open>
  The calls the code makes on the mysql2 pool and on a pooled connection.
\<close>

datatype call =
    CreatePool
  | GetConnection
  | Ping
  | BeginTransaction
  | Execute string "js_value list"
  | Commit
  | Rollback
  | Release
  | End

text \<open>
  What \<open>await connection.execute(query, params)\<close> resolves to: \<open>[rows, fields]\<close>, with
  \<open>fields\<close> (here \<open>fields_any\<close>) read through \<open>(fields as any)?.x\<close>, so possibly
  absent and with any of its properties absent.
\<close>

record reply =
  rows :: "js_object list"
  fields_any :: "(string \<times> nat) list option"

datatype outcome = Returned reply | Threw Error

type_synonym event = "call \<times> outcome"

text \<open>
  The driver is a parameter: it answers a call given every call made so far and its
  outcome. Nothing is assumed about which calls succeed.
\<close>

type_synonym driver = "event list \<Rightarrow> call \<Rightarrow> outcome"

datatype level = INFO | WARN | ERROR

type_synonym log_entry = "level \<times> string \<times> (string \<times> string) list"

text \<open>
  The state: whether \<open>DatabaseConnection.pool\<close> is set, the driver calls made with
  their outcomes, and the logger's entries. Of an entry's metadata only the statement
  text and the error messages are kept: parameter lists, counts, connection settings and
  clock readings (\<open>timestamp\<close>, \<open>executionTime\<close>) are left out.
\<close>

record world =
  pool :: bool
  trace :: "event list"
  logs :: "log_entry list"

definition void :: reply where
  "void = \<lparr> rows = [], fields_any = None \<rparr>"

definition perform :: "driver \<Rightarrow> call \<Rightarrow> world \<Rightarrow> outcome \<times> world" where
  "perform drv c w = (let r = drv (trace w) c in (r, w\<lparr> trace := trace w @ [(c, r)] \<rparr>))"

text \<open>\<open>connection.release()\<close> is synchronous and returns nothing.\<close>

definition release :: "world \<Rightarrow> world" where
  "release w = w\<lparr> trace := trace w @ [(Release, Returned void)] \<rparr>"

definition logger :: "level \<Rightarrow> string \<Rightarrow> (string \<times> string) list \<Rightarrow> world \<Rightarrow> world" where
  "logger lv msg meta w = w\<lparr> logs := logs w @ [(lv, msg, meta)] \<rparr>"

definition log_if :: "bool \<Rightarrow> level \<Rightarrow> string \<Rightarrow> (string \<times> string) list \<Rightarrow> world \<Rightarrow> world" where
  "log_if b lv msg meta w = (if b then logger lv msg meta w else w)"

text \<open>Connections checked out and checked in along a trace, and the pool's idle count.\<close>

fun is_checkout :: "event \<Rightarrow> bool" where
  "is_checkout (GetConnection, Returned r) = True"
| "is_checkout ev = False"

fun is_checkin :: "event \<Rightarrow> bool" where
  "is_checkin (Release, r) = True"
| "is_checkin ev = False"

definition checkouts :: "event list \<Rightarrow> nat" where
  "checkouts tr = length (filter is_checkout tr)"

definition checkins :: "event list \<Rightarrow> nat" where
  "checkins tr = length (filter is_checkin tr)"

definition idle :: "nat \<Rightarrow> event list \<Rightarrow> int" where
  "idle connectionLimit tr = int connectionLimit - (int (checkouts tr) - int (checkins tr))"

subsection \<open>DatabaseConnection\<close>

definition connect :: "driver \<Rightarrow> world \<Rightarrow> (AppError + unit) \<times> world" where
  "connect drv w =
     (let failed = (\<lambda>w'. (Inl (database ''Failed to connect to database'' None),
                           logger ERROR ''Database connection failed:'' [] w'))
      in case perform drv CreatePool w of
           (Threw e, w1) \<Rightarrow> failed w1
         | (Returned p, w1) \<Rightarrow>
             (case perform drv GetConnection (w1\<lparr> pool := True \<rparr>) of
                (Threw e, w2) \<Rightarrow> failed w2
              | (Returned c, w2) \<Rightarrow>
                  (case perform drv Ping w2 of
                     (Threw e, w3) \<Rightarrow> failed w3
                   | (Returned r, w3) \<Rightarrow>
                       (Inr (), logger INFO ''Database connected successfully'' []
                                  (release w3)))))"

definition getPool :: "world \<Rightarrow> AppError + unit" where
  "getPool w = (if \<not> pool w then Inl (database ''Database pool not initialized'' None)
                else Inr ())"

definition checkConnection :: "driver \<Rightarrow> world \<Rightarrow> bool \<times> world" where
  "checkConnection drv w =
     (if \<not> pool w then (False, w)
      else case perform drv GetConnection w of
             (Threw e, w1) \<Rightarrow> (False, logger ERROR ''Database connection check failed:'' [] w1)
           | (Returned c, w1) \<Rightarrow>
               (case perform drv Ping w1 of
                  (Threw e, w2) \<Rightarrow>
                    (False, logger ERROR ''Database connection check failed:'' [] w2)
                | (Returned r, w2) \<Rightarrow> (True, release w2)))"

definition close :: "driver \<Rightarrow> world \<Rightarrow> (AppError + unit) \<times> world" where
  "close drv w =
     (if pool w
      then (case perform drv End w of
              (Threw e, w1) \<Rightarrow>
                (Inl (database ''Failed to close database connection'' None),
                 logger ERROR ''Error closing database connection:'' [] w1)
            | (Returned r, w1) \<Rightarrow>
                (Inr (), logger INFO ''Database connection closed'' [] (w1\<lparr> pool := False \<rparr>)))
      else (Inr (), w))"

subsection \<open>QueryExecutor\<close>

record meta =
  affectedRows :: "nat option"
  insertId :: "nat option"
  changedRows :: "nat option"
  fieldCount :: nat
  warningCount :: nat

record QueryResult =
  data :: "js_object list"
  meta :: meta

text \<open>\<open>(fields as any)?.x\<close> and \<open>(fields as any)?.x || 0\<close>.\<close>

definition field_of :: "(string \<times> nat) list option \<Rightarrow> string \<Rightarrow> nat option" where
  "field_of fs x = (case fs of None \<Rightarrow> None | Some kvs \<Rightarrow> map_of kvs x)"

definition or_zero :: "nat option \<Rightarrow> nat" where
  "or_zero v = (case v of None \<Rightarrow> 0 | Some n \<Rightarrow> n)"

definition result_of :: "reply \<Rightarrow> QueryResult" where
  "result_of r =
     \<lparr> data = rows r,
       meta = \<lparr> affectedRows = field_of (fields_any r) ''affectedRows'',
                insertId = field_of (fields_any r) ''insertId'',
                changedRows = field_of (fields_any r) ''changedRows'',
                fieldCount = or_zero (field_of (fields_any r) ''fieldCount''),
                warningCount = or_zero (field_of (fields_any r) ''warningCount'') \<rparr> \<rparr>"

text \<open>
  \<open>execute\<close>: \<open>getPool\<close> and \<open>getConnection\<close> are inside the \<open>try\<close>; the \<open>finally\<close> block
  releases the connection only when one was obtained.
\<close>

definition execute ::
  "driver \<Rightarrow> string \<Rightarrow> js_value list \<Rightarrow> bool \<Rightarrow> world \<Rightarrow> (AppError + QueryResult) \<times> world" where
  "execute drv q ps logQuery w =
     (let caught = (\<lambda>msg w'. (Inl (database (''Query execution failed: '' @ msg) None),
                               logger ERROR ''Query execution failed''
                                 [(''query'', q), (''error'', msg)] w'))
      in case getPool w of
           Inl e \<Rightarrow> caught (message e) w
         | Inr p \<Rightarrow>
             (case perform drv GetConnection w of
                (Threw e, w1) \<Rightarrow> caught (message e) w1
              | (Returned c, w1) \<Rightarrow>
                  (case perform drv (Execute q ps)
                          (log_if logQuery INFO ''Executing query'' [(''query'', q)] w1) of
                     (Threw e, w2) \<Rightarrow>
                       (case caught (message e) w2 of (r, w3) \<Rightarrow> (r, release w3))
                   | (Returned r, w2) \<Rightarrow>
                       (Inr (result_of r),
                        release (log_if logQuery INFO ''Query executed successfully'' [] w2)))))"

definition executeOne ::
  "driver \<Rightarrow> string \<Rightarrow> js_value list \<Rightarrow> bool \<Rightarrow> world \<Rightarrow> (AppError + js_object option) \<times> world" where
  "executeOne drv q ps logQuery w =
     (case execute drv q ps logQuery w of
        (Inl e, w1) \<Rightarrow> (Inl e, w1)
      | (Inr result, w1) \<Rightarrow>
          (Inr (if length (data result) > 0 then Some (hd (data result)) else None), w1))"

subsection \<open>TransactionHelper\<close>

text \<open>An element \<open>{ query, params? }\<close> of the list given to \<open>executeTransaction\<close>.\<close>

type_synonym query_item = "string \<times> js_value list option"

text \<open>
  The \<open>for\<close> loop of \<open>executeTransaction\<close>: each statement runs on the connection with
  \<open>params = []\<close> by default, its result is pushed, and the first one that throws ends the
  loop with that error.
\<close>

fun run_queries ::
  "driver \<Rightarrow> bool \<Rightarrow> query_item list \<Rightarrow> QueryResult list \<Rightarrow> world
     \<Rightarrow> (Error + QueryResult list) \<times> world" where
  "run_queries drv logQueries [] results w = (Inr results, w)"
| "run_queries drv logQueries ((q, ps) # rest) results w =
     (case perform drv (Execute q (case ps of None \<Rightarrow> [] | Some p \<Rightarrow> p))
             (log_if logQueries INFO ''Executing transaction query'' [(''query'', q)] w) of
        (Threw e, w1) \<Rightarrow> (Inl e, w1)
      | (Returned r, w1) \<Rightarrow> run_queries drv logQueries rest (results @ [result_of r]) w1)"

text \<open>
  The \<open>catch\<close> and \<open>finally\<close> blocks, which \<open>executeTransaction\<close> and \<open>withTransaction\<close>
  write out alike but for the suffix \<open>mode\<close> of their log messages: roll back, log the
  rollback or its failure, log the failure of the transaction, throw the wrapped error,
  release the connection. \<open>msg\<close> is \<open>(error as Error).message\<close>.
\<close>

definition on_error ::
  "driver \<Rightarrow> bool \<Rightarrow> string \<Rightarrow> string \<Rightarrow> world \<Rightarrow> (thrown + 'a) \<times> world" where
  "on_error drv lg mode msg w =
     (case perform drv Rollback w of
        (Returned r, w1) \<Rightarrow>
          (Inl (App (database (''Transaction failed: '' @ msg) None)),
           release (logger ERROR (''Transaction failed'' @ mode) [(''error'', msg)]
             (log_if lg WARN (''Transaction rolled back due to error'' @ mode) [] w1)))
      | (Threw rollbackError, w1) \<Rightarrow>
          (Inl (App (database (''Transaction failed: '' @ msg) None)),
           release (logger ERROR (''Transaction failed'' @ mode) [(''error'', msg)]
             (logger ERROR (''Failed to rollback transaction'' @ mode)
                [(''originalError'', msg), (''rollbackError'', message rollbackError)] w1))))"

text \<open>
  \<open>executeTransaction\<close>: \<open>getPool\<close> and \<open>getConnection\<close> stand before the \<open>try\<close>, so what
  they throw leaves the method as it is and no connection is held then.
\<close>

definition executeTransaction ::
  "driver \<Rightarrow> query_item list \<Rightarrow> bool \<Rightarrow> world \<Rightarrow> (thrown + QueryResult list) \<times> world" where
  "executeTransaction drv queries logQueries w =
     (case getPool w of
        Inl e \<Rightarrow> (Inl (App e), w)
      | Inr p \<Rightarrow>
          (case perform drv GetConnection w of
             (Threw e, w1) \<Rightarrow> (Inl (Native e), w1)
           | (Returned c, w1) \<Rightarrow>
               (case perform drv BeginTransaction w1 of
                  (Threw e, w2) \<Rightarrow> on_error drv logQueries [] (message e) w2
                | (Returned b, w2) \<Rightarrow>
                    (case run_queries drv logQueries queries []
                            (log_if logQueries INFO ''Transaction started'' [] w2) of
                       (Inl e, w3) \<Rightarrow> on_error drv logQueries [] (message e) w3
                     | (Inr results, w3) \<Rightarrow>
                         (case perform drv Commit w3 of
                            (Threw e, w4) \<Rightarrow> on_error drv logQueries [] (message e) w4
                          | (Returned r, w4) \<Rightarrow>
                              (Inr results,
                               release (log_if logQueries INFO
                                 ''Transaction committed successfully'' [] w4)))))))"

text \<open>
  The callback of \<open>withTransaction\<close>, as the reads and writes it makes on the connection
  it is given: it returns a value, throws, or runs a statement and goes on from the
  statement's outcome (which it may catch).
\<close>

datatype 'a callback =
    Return 'a
  | Throw thrown
  | Run string "js_value list" "outcome \<Rightarrow> 'a callback"

primrec run_callback :: "'a callback \<Rightarrow> driver \<Rightarrow> world \<Rightarrow> (thrown + 'a) \<times> world" where
  "run_callback (Return x) drv w = (Inr x, w)"
| "run_callback (Throw e) drv w = (Inl e, w)"
| "run_callback (Run q ps k) drv w =
     (case perform drv (Execute q ps) w of (r, w1) \<Rightarrow> run_callback (k r) drv w1)"

definition withTransaction ::
  "driver \<Rightarrow> 'a callback \<Rightarrow> bool \<Rightarrow> world \<Rightarrow> (thrown + 'a) \<times> world" where
  "withTransaction drv cb logTransaction w =
     (case getPool w of
        Inl e \<Rightarrow> (Inl (App e), w)
      | Inr p \<Rightarrow>
          (case perform drv GetConnection w of
             (Threw e, w1) \<Rightarrow> (Inl (Native e), w1)
           | (Returned c, w1) \<Rightarrow>
               (case perform drv BeginTransaction w1 of
                  (Threw e, w2) \<Rightarrow>
                    on_error drv logTransaction '' (callback mode)'' (message e) w2
                | (Returned b, w2) \<Rightarrow>
                    (case run_callback cb drv
                            (log_if logTransaction INFO
                               ''Transaction started (callback mode)'' [] w2) of
                       (Inl e, w3) \<Rightarrow>
                         on_error drv logTransaction '' (callback mode)'' (thrown_message e) w3
                     | (Inr result, w3) \<Rightarrow>
                         (case perform drv Commit w3 of
                            (Threw e, w4) \<Rightarrow>
                              on_error drv logTransaction '' (callback mode)'' (message e) w4
                          | (Returned r, w4) \<Rightarrow>
                              (Inr result,
                               release (log_if logTransaction INFO
                                 ''Transaction committed successfully (callback mode)'' []
                                 w4)))))))"

text \<open>\<open>simpleTransaction\<close> and the operations it compiles.\<close>

datatype operation_type = Insert | Update | Delete

record operation =
  op_type :: operation_type
  table :: string
  op_data :: "js_object option"
  conditions :: "js_object option"

fun join :: "string \<Rightarrow> string list \<Rightarrow> string" where
  "join sep [] = []"
| "join sep [x] = x"
| "join sep (x # y # ys) = x @ sep @ join sep (y # ys)"

text \<open>
  The body of the \<open>switch\<close>: \<open>!operation.data\<close> and \<open>!operation.conditions\<close> hold of an
  absent object only; \<open>Object.keys\<close> and \<open>Object.values\<close> are the two projections of the
  object's entries.
\<close>

definition build_query :: "operation \<Rightarrow> AppError + (string \<times> js_value list)" where
  "build_query operation =
     (case op_type operation of
        Insert \<Rightarrow>
          (case op_data operation of
             None \<Rightarrow> Inl (badRequest ''Insert operation requires data'' None)
           | Some d \<Rightarrow>
               (let insertFields = map fst d;
                    insertPlaceholders = join '', '' (map (\<lambda>f. ''?'') insertFields)
                in Inr (''INSERT INTO '' @ table operation @ '' ('' @ join '', '' insertFields
                          @ '') VALUES ('' @ insertPlaceholders @ '')'',
                        map snd d)))
      | Update \<Rightarrow>
          (case (op_data operation, conditions operation) of
             (Some d, Some c) \<Rightarrow>
               (let updateFields = map fst d;
                    updateSet = join '', '' (map (\<lambda>field. field @ '' = ?'') updateFields);
                    updateWhere = join '' AND '' (map (\<lambda>field. field @ '' = ?'') (map fst c))
                in Inr (''UPDATE '' @ table operation @ '' SET '' @ updateSet
                          @ '' WHERE '' @ updateWhere,
                        map snd d @ map snd c))
           | _ \<Rightarrow> Inl (badRequest ''Update operation requires data and conditions'' None))
      | Delete \<Rightarrow>
          (case conditions operation of
             None \<Rightarrow> Inl (badRequest ''Delete operation requires conditions'' None)
           | Some c \<Rightarrow>
               (let deleteWhere = join '' AND '' (map (\<lambda>field. field @ '' = ?'') (map fst c))
                in Inr (''DELETE FROM '' @ table operation @ '' WHERE '' @ deleteWhere,
                        map snd c))))"

fun build_queries :: "operation list \<Rightarrow> query_item list \<Rightarrow> AppError + query_item list" where
  "build_queries [] queries = Inr queries"
| "build_queries (operation # rest) queries =
     (case build_query operation of
        Inl e \<Rightarrow> Inl e
      | Inr (q, ps) \<Rightarrow> build_queries rest (queries @ [(q, Some ps)]))"

definition simpleTransaction ::
  "driver \<Rightarrow> operation list \<Rightarrow> bool \<Rightarrow> world \<Rightarrow> (thrown + QueryResult list) \<times> world" where
  "simpleTransaction drv operations logTransaction w =
     (case build_queries operations [] of
        Inl e \<Rightarrow> (Inl (App e), w)
      | Inr queries \<Rightarrow> executeTransaction drv queries logTransaction w)"

section \<open>Notions used in the statements\<close>

text \<open>The connections a run holds at its end beyond those held at its start.\<close>

definition held :: "world \<Rightarrow> world \<Rightarrow> int" where
  "held w w' = (int (checkouts (trace w')) - int (checkins (trace w')))
               - (int (checkouts (trace w)) - int (checkins (trace w)))"

text \<open>
  The shape that \<open>executeTransaction\<close> and \<open>withTransaction\<close> share, with the work done
  between begin and commit as a parameter; the two methods are instances of it
  (\<open>executeTransaction_eq\<close>, \<open>withTransaction_eq\<close>), and the proofs go through it.
\<close>

definition in_transaction ::
  "driver \<Rightarrow> bool \<Rightarrow> string \<Rightarrow> (world \<Rightarrow> (thrown + 'a) \<times> world) \<Rightarrow> world
     \<Rightarrow> (thrown + 'a) \<times> world" where
  "in_transaction drv lg mode work w =
     (case getPool w of
        Inl e \<Rightarrow> (Inl (App e), w)
      | Inr p \<Rightarrow>
          (case perform drv GetConnection w of
             (Threw e, w1) \<Rightarrow> (Inl (Native e), w1)
           | (Returned c, w1) \<Rightarrow>
               (case perform drv BeginTransaction w1 of
                  (Threw e, w2) \<Rightarrow> on_error drv lg mode (message e) w2
                | (Returned b, w2) \<Rightarrow>
                    (case work (log_if lg INFO (''Transaction started'' @ mode) [] w2) of
                       (Inl e, w3) \<Rightarrow> on_error drv lg mode (thrown_message e) w3
                     | (Inr result, w3) \<Rightarrow>
                         (case perform drv Commit w3 of
                            (Threw e, w4) \<Rightarrow> on_error drv lg mode (message e) w4
                          | (Returned r, w4) \<Rightarrow>
                              (Inr result,
                               release (log_if lg INFO
                                 (''Transaction committed successfully'' @ mode) [] w4)))))))"

definition queries_body ::
  "driver \<Rightarrow> bool \<Rightarrow> query_item list \<Rightarrow> world \<Rightarrow> (thrown + QueryResult list) \<times> world" where
  "queries_body drv lg qs w =
     (case run_queries drv lg qs [] w of
        (Inl e, w') \<Rightarrow> (Inl (Native e), w')
      | (Inr results, w') \<Rightarrow> (Inr results, w'))"

text \<open>A call that runs a statement on the connection.\<close>

fun is_statement :: "event \<Rightarrow> bool" where
  "is_statement (Execute q ps, r) = True"
| "is_statement ev = False"

text \<open>
  What the log gains in the \<open>catch\<close> block: the report of the rollback (or of its
  failure, with both messages), then the report of the failed transaction.
\<close>

definition failure_report :: "bool \<Rightarrow> string \<Rightarrow> string \<Rightarrow> outcome \<Rightarrow> log_entry list" where
  "failure_report lg mode msg ro =
     (case ro of
        Returned r \<Rightarrow>
          (if lg then [(WARN, ''Transaction rolled back due to error'' @ mode, [])] else [])
      | Threw rollbackError \<Rightarrow>
          [(ERROR, ''Failed to rollback transaction'' @ mode,
            [(''originalError'', msg), (''rollbackError'', message rollbackError)])])
     @ [(ERROR, ''Transaction failed'' @ mode, [(''error'', msg)])]"

text \<open>
  The storage engine's side of a connection, as the specification's atomicity invariant
  reads it: the statements whose effects are durable, and those of the open transaction,
  if one is open. A statement that returns outside a transaction is durable at once;
  inside one it is pending until a commit returns, and dropped when a rollback returns.
  A call that throws changes nothing. \<open>effects w w'\<close> are the statements made durable
  by the calls between two worlds, replayed on a connection with no open transaction.
\<close>

type_synonym statement = "string \<times> js_value list"

record session =
  durable :: "statement list"
  pending :: "statement list option"

fun apply_event :: "session \<Rightarrow> event \<Rightarrow> session" where
  "apply_event s (BeginTransaction, Returned r) =
     s\<lparr> durable := durable s @ (case pending s of None \<Rightarrow> [] | Some p \<Rightarrow> p),
        pending := Some [] \<rparr>"
| "apply_event s (Execute q ps, Returned r) =
     (case pending s of
        None \<Rightarrow> s\<lparr> durable := durable s @ [(q, ps)] \<rparr>
      | Some p \<Rightarrow> s\<lparr> pending := Some (p @ [(q, ps)]) \<rparr>)"
| "apply_event s (Commit, Returned r) =
     s\<lparr> durable := durable s @ (case pending s of None \<Rightarrow> [] | Some p \<Rightarrow> p),
        pending := None \<rparr>"
| "apply_event s (Rollback, Returned r) = s\<lparr> pending := None \<rparr>"
| "apply_event s ev = s"

definition effects :: "world \<Rightarrow> world \<Rightarrow> statement list" where
  "effects w w' =
     durable (foldl apply_event \<lparr> durable = [], pending = None \<rparr>
                (drop (length (trace w)) (trace w')))"

text \<open>
  A transaction that failed with message \<open>msg\<close> when its statements had brought the world
  to \<open>w3\<close>: the wrapped error is thrown; the calls made since \<open>w\<close> are the checkout, the
  begin, statements only, then one rollback and the release; none of the statements is
  durable; the log gains the failure report.
\<close>

definition rolled_back ::
  "driver \<Rightarrow> bool \<Rightarrow> string \<Rightarrow> string \<Rightarrow> world \<Rightarrow> reply \<Rightarrow> reply \<Rightarrow> world
     \<Rightarrow> (thrown + 'a) \<times> world \<Rightarrow> bool" where
  "rolled_back drv lg mode msg w c b w3 R =
     (fst R = Inl (App (database (''Transaction failed: '' @ msg) None))
      \<and> trace (snd R) = trace w3 @ [(Rollback, drv (trace w3) Rollback), (Release, Returned void)]
      \<and> take (length (trace w) + 2) (trace w3)
          = trace w @ [(GetConnection, Returned c), (BeginTransaction, Returned b)]
      \<and> list_all is_statement (drop (length (trace w) + 2) (trace w3))
      \<and> effects w (snd R) = []
      \<and> logs (snd R) = logs w3 @ failure_report lg mode msg (drv (trace w3) Rollback))"

text \<open>The rules of a schema that an input violates, in the schema's order.\<close>

definition violated :: "ObjectSchema option \<Rightarrow> js_object \<Rightarrow> rule list" where
  "violated s v = (case s of None \<Rightarrow> [] | Some sch \<Rightarrow> filter (\<lambda>r. r v \<noteq> None) (rules sch))"

text \<open>Their messages.\<close>

definition messages :: "ObjectSchema option \<Rightarrow> js_object \<Rightarrow> string list" where
  "messages s v = map (\<lambda>r. the (r v)) (violated s v)"

text \<open>The status, type and message of a response, when the handler sends one.\<close>

definition summary :: "js_exception + response \<Rightarrow> (nat \<times> ErrorType \<times> string) option" where
  "summary r = (case r of
                  Inl ex \<Rightarrow> None
                | Inr res \<Rightarrow> Some (status_number (status res), error_type (json res),
                                   error_message (json res)))"

text \<open>The names of errors that the handler tests before it looks at a code.\<close>

definition recognised_names :: "string list" where
  "recognised_names = [''ValidationError'', ''CastError'', ''JsonWebTokenError'', ''TokenExpiredError'']"

section \<open>Example inputs\<close>

definition sample_claims :: claims where
  "sample_claims =
     \<lparr> id = Some ''u-1'', userId = None, email = Some ''a@x.com'', role = Some ''admin'' \<rparr>"

definition sample_verify :: jwt_verify where
  "sample_verify tok =
     (if tok = ''good'' then Inr sample_claims
      else if tok = ''expired'' then Inl (TokenExpiredError ''jwt expired'')
      else if tok = ''tampered'' then Inl (JsonWebTokenError ''invalid signature'')
      else Inl (JsonWebTokenError ''jwt malformed''))"

definition sample_request :: "string option \<Rightarrow> identity option \<Rightarrow> request" where
  "sample_request h u =
     \<lparr> authorization = h, user = u, originalUrl = ''/api/v1/users/profile'',
       method = ''GET'', body = [], params = [], query = [] \<rparr>"

text \<open>A token whose \<open>id\<close> claim is the empty string and which also carries \<open>userId\<close>.\<close>

definition fallback_claims :: claims where
  "fallback_claims =
     \<lparr> id = Some [], userId = Some ''u-2'', email = Some ''b@x.com'', role = Some ''user'' \<rparr>"

definition admin_identity :: identity where
  "admin_identity = \<lparr> user_id = Some ''u-1'', user_email = Some ''a@x.com'', user_role = Some ''admin'' \<rparr>"

definition roleless_identity :: identity where
  "roleless_identity = \<lparr> user_id = Some ''u-3'', user_email = Some ''c@x.com'', user_role = None \<rparr>"

text \<open>Rules for the examples: a required key, and a minimal length of a string.\<close>

definition required :: "string \<Rightarrow> rule" where
  "required k v = (case map_of v k of
                     None \<Rightarrow> Some (k @ '' is required'')
                   | Some x \<Rightarrow> None)"

definition min_length :: "string \<Rightarrow> nat \<Rightarrow> rule" where
  "min_length k n v = (case map_of v k of
                         Some (JString s) \<Rightarrow>
                           if length s < n then Some (k @ '' is too short'') else None
                       | _ \<Rightarrow> None)"

definition sample_schema :: schema_set where
  "sample_schema =
     \<lparr> schema_body = Some (ObjectSchema [required ''email'', min_length ''password'' 8]),
       schema_params = Some (ObjectSchema [required ''id'']),
       schema_query = None \<rparr>"

definition bad_request :: request where
  "bad_request = (sample_request None None)\<lparr> body := [(''password'', JString ''short'')] \<rparr>"

definition good_request :: request where
  "good_request = (sample_request None None)
     \<lparr> body := [(''email'', JString ''a@x.com''), (''password'', JString ''long enough'')],
       params := [(''id'', JString ''7'')] \<rparr>"

definition table_missing :: Error where
  "table_missing =
     \<lparr> name = ''Error'', message = ''Table app.users does not exist'',
       stack = ''Error: Table app.users does not exist'', code = JString ''ER_NO_SUCH_TABLE'' \<rparr>"

definition named_error :: "string \<Rightarrow> Error" where
  "named_error n = \<lparr> name = n, message = ''email must be valid'',
                      stack = n @ '': email must be valid'', code = JUndefined \<rparr>"

definition delete_all :: operation where
  "delete_all = \<lparr> op_type = Delete, table = ''users'', op_data = None, conditions = Some [] \<rparr>"

definition update_all :: operation where
  "update_all = \<lparr> op_type = Update, table = ''users'',
                   op_data = Some [(''role'', JString ''admin'')], conditions = Some [] \<rparr>"

definition duplicate_entry :: Error where
  "duplicate_entry =
     \<lparr> name = ''Error'', message = ''Duplicate entry for key users.email'',
       stack = ''Error: Duplicate entry for key users.email'', code = JString ''ER_DUP_ENTRY'' \<rparr>"

definition connection_lost :: Error where
  "connection_lost =
     \<lparr> name = ''Error'', message = ''Connection lost'',
       stack = ''Error: Connection lost'', code = JString ''PROTOCOL_CONNECTION_LOST'' \<rparr>"

text \<open>
  A driver for the examples: the insert into \<open>users\<close> violates the unique key, every
  other statement succeeds, and the rollback fails when the flag is set.
\<close>

definition sample_driver :: "bool \<Rightarrow> driver" where
  "sample_driver rollback_fails tr c =
     (case c of
        Execute q ps \<Rightarrow>
          if q = ''INSERT INTO users (email) VALUES (?)'' then Threw duplicate_entry
          else Returned void
      | Rollback \<Rightarrow> if rollback_fails then Threw connection_lost else Returned void
      | _ \<Rightarrow> Returned void)"

definition sample_queries :: "query_item list" where
  "sample_queries =
     [(''UPDATE profiles SET bio = ? WHERE user_id = ?'', Some [JString ''hi'', JNumber 1]),
      (''INSERT INTO users (email) VALUES (?)'', Some [JString ''a@x.com''])]"

definition sample_callback :: "nat callback" where
  "sample_callback =
     Run ''SELECT balance FROM accounts WHERE id = ?'' [JNumber 7]
       (\<lambda>r. case r of
               Threw e \<Rightarrow> Throw (Native e)
             | Returned x \<Rightarrow>
                 if rows x = [] then Throw (App (notFound ''Account not found'' None))
                 else Return (length (rows x)))"

definition fresh :: world where
  "fresh = \<lparr> pool = True, trace = [], logs = [] \<rparr>"

section \<open>Properties of the authentication gate\<close>

lemma startsWith_append: "startsWith (p @ s) p"
  by (simp add: startsWith_def)

lemma substring_Bearer: "substring (''Bearer '' @ tok) 7 = tok"
  by (simp add: substring_def)

lemma unauthorized_message: "message (unauthorized m cx) = m"
  by (simp add: unauthorized_def new_AppError_def)

lemma unauthorized_inject: "(unauthorized m cx = unauthorized m' cx') = (m = m' \<and> cx = cx')"
  by (auto simp: unauthorized_def new_AppError_def captureStackTrace_def)

lemma authenticate_no_header:
  "authorization req = None \<Longrightarrow>
     authenticate verify req = Inl (unauthorized ''Access token is required'' None)"
  by (simp add: authenticate_def)

lemma authenticate_bad_scheme:
  "authorization req = Some h \<Longrightarrow> \<not> startsWith h ''Bearer '' \<Longrightarrow>
     authenticate verify req = Inl (unauthorized ''Access token is required'' None)"
  by (simp add: authenticate_def)

lemma authenticate_bearer:
  assumes "authorization req = Some (''Bearer '' @ tok)"
  shows "authenticate verify req =
          (case verify tok of
             Inl err \<Rightarrow>
               if instanceof_TokenExpiredError err
               then Inl (unauthorized ''Token has expired'' None)
               else if instanceof_JsonWebTokenError err
               then Inl (unauthorized ''Invalid token'' None)
               else Inl (unauthorized ''Token verification failed'' None)
           | Inr decoded \<Rightarrow> Inr (req\<lparr> user := Some (identity_of decoded) \<rparr>))"
proof -
  have w: "startsWith (''Bearer '' @ tok) ''Bearer ''"
    by (rule startsWith_append)
  show ?thesis
    unfolding authenticate_def assms option.case substring_Bearer
    using w by (simp split: sum.splits)
qed

text \<open>
  Claim C5, as amended. \<open>authenticate\<close> throws the unauthorized error
  \<open>Access token is required\<close> when the request has no Authorization header or the
  header does not start with \<open>Bearer \<close>; on a bearer token it throws \<open>Token has expired\<close>
  when verification throws \<open>TokenExpiredError\<close>, \<open>Invalid token\<close> for any other error of
  the library's hierarchy and \<open>Token verification failed\<close> for any other throw; when
  verification returns the payload, the request goes on with an identity whose email and
  role are the payload's and whose id is the payload's \<open>id\<close>, or its \<open>userId\<close> when
  \<open>id\<close> is absent or empty.
\<close>

theorem authenticate_outcomes:
  "(authorization req = None \<longrightarrow>
      authenticate verify req = Inl (unauthorized ''Access token is required'' None))
   \<and> (\<forall>h. authorization req = Some h \<and> \<not> startsWith h ''Bearer '' \<longrightarrow>
      authenticate verify req = Inl (unauthorized ''Access token is required'' None))
   \<and> (\<forall>tok. authorization req = Some (''Bearer '' @ tok) \<longrightarrow>
        authenticate verify req =
          (case verify tok of
             Inl (TokenExpiredError m) \<Rightarrow> Inl (unauthorized ''Token has expired'' None)
           | Inl (NotBeforeError m) \<Rightarrow> Inl (unauthorized ''Invalid token'' None)
           | Inl (JsonWebTokenError m) \<Rightarrow> Inl (unauthorized ''Invalid token'' None)
           | Inl (OtherError m) \<Rightarrow> Inl (unauthorized ''Token verification failed'' None)
           | Inr decoded \<Rightarrow>
               Inr (req\<lparr> user := Some \<lparr> user_id = or_else (id decoded) (userId decoded),
                                        user_email = email decoded,
                                        user_role = role decoded \<rparr> \<rparr>)))"
proof (intro conjI allI impI)
  assume "authorization req = None"
  then show "authenticate verify req = Inl (unauthorized ''Access token is required'' None)"
    by (rule authenticate_no_header)
next
  fix h assume "authorization req = Some h \<and> \<not> startsWith h ''Bearer ''"
  then show "authenticate verify req = Inl (unauthorized ''Access token is required'' None)"
    using authenticate_bad_scheme by blast
next
  fix tok assume h: "authorization req = Some (''Bearer '' @ tok)"
  show "authenticate verify req =
          (case verify tok of
             Inl (TokenExpiredError m) \<Rightarrow> Inl (unauthorized ''Token has expired'' None)
           | Inl (NotBeforeError m) \<Rightarrow> Inl (unauthorized ''Invalid token'' None)
           | Inl (JsonWebTokenError m) \<Rightarrow> Inl (unauthorized ''Invalid token'' None)
           | Inl (OtherError m) \<Rightarrow> Inl (unauthorized ''Token verification failed'' None)
           | Inr decoded \<Rightarrow>
               Inr (req\<lparr> user := Some \<lparr> user_id = or_else (id decoded) (userId decoded),
                                        user_email = email decoded,
                                        user_role = role decoded \<rparr> \<rparr>))"
    unfolding authenticate_bearer [OF h]
    by (simp add: identity_of_def split: sum.splits jwt_throw.splits)
qed

theorem authenticate_outcomes_witness:
  "authenticate sample_verify (sample_request None None)
     = Inl (unauthorized ''Access token is required'' None)
   \<and> authenticate sample_verify (sample_request (Some ''Basic abc'') None)
     = Inl (unauthorized ''Access token is required'' None)
   \<and> authenticate sample_verify (sample_request (Some ''Bearer expired'') None)
     = Inl (unauthorized ''Token has expired'' None)
   \<and> authenticate sample_verify (sample_request (Some ''Bearer tampered'') None)
     = Inl (unauthorized ''Invalid token'' None)
   \<and> authenticate sample_verify (sample_request (Some ''Bearer good'') None)
     = Inr ((sample_request (Some ''Bearer good'') None)
             \<lparr> user := Some \<lparr> user_id = Some ''u-1'', user_email = Some ''a@x.com'',
                              user_role = Some ''admin'' \<rparr> \<rparr>)"
proof -
  have a: "authorization (sample_request None None) = None"
    by (simp add: sample_request_def)
  have b: "authorization (sample_request (Some ''Basic abc'') None) = Some ''Basic abc''
           \<and> \<not> startsWith ''Basic abc'' ''Bearer ''"
    by (simp add: sample_request_def startsWith_def)
  have c: "\<And>t. authorization (sample_request (Some (''Bearer '' @ t)) None) = Some (''Bearer '' @ t)"
    by (simp add: sample_request_def)
  note t1 = authenticate_outcomes [of "sample_request None None" sample_verify, THEN conjunct1, rule_format, OF a]
  note t2 = authenticate_outcomes [of "sample_request (Some ''Basic abc'') None" sample_verify,
      THEN conjunct2, THEN conjunct1, rule_format, OF b]
  note t3 = authenticate_outcomes [of "sample_request (Some (''Bearer '' @ ''expired'')) None" sample_verify,
      THEN conjunct2, THEN conjunct2, rule_format, OF c]
  note t4 = authenticate_outcomes [of "sample_request (Some (''Bearer '' @ ''tampered'')) None" sample_verify,
      THEN conjunct2, THEN conjunct2, rule_format, OF c]
  note t5 = authenticate_outcomes [of "sample_request (Some (''Bearer '' @ ''good'')) None" sample_verify,
      THEN conjunct2, THEN conjunct2, rule_format, OF c]
  show ?thesis
    using t1 t2 t3 t4 t5 by (simp add: sample_verify_def sample_claims_def)
qed

text \<open>
  The claim as it was stated has the identity carry the claims unchanged. A verified
  token whose \<open>id\<close> claim is the empty string and which also carries \<open>userId\<close> yields an
  identity whose id is the \<open>userId\<close>, not the \<open>id\<close> claim.
\<close>

theorem authenticate_identity_counterexample:
  "authenticate (\<lambda>tok. Inr fallback_claims) (sample_request (Some ''Bearer any'') None)
     = Inr ((sample_request (Some ''Bearer any'') None)
             \<lparr> user := Some \<lparr> user_id = Some ''u-2'', user_email = Some ''b@x.com'',
                              user_role = Some ''user'' \<rparr> \<rparr>)
   \<and> id fallback_claims = Some []
   \<and> Some ''u-2'' \<noteq> id fallback_claims"
  by (simp add: authenticate_def sample_request_def fallback_claims_def startsWith_def
      substring_def identity_of_def)

lemma authorize_user:
  "user req = Some u \<Longrightarrow>
     authorize roles req =
       (if roles \<noteq> [] \<and> role_or_empty (user_role u) \<notin> set roles
        then Inl (forbidden ''Insufficient permissions'' None) else Inr req)"
  by (simp add: authorize_def)

text \<open>
  Claim C8, as amended. For an authenticated identity, \<open>authorize\<close> throws the
  forbidden error (\<open>Insufficient permissions\<close>) exactly when the list of required roles
  is not empty and the identity's role, read as the empty string when the identity has no
  role (\<open>req.user.role || ''\<close>), is not in it; otherwise the request passes unchanged,
  in particular whenever no role is required.
\<close>

theorem authorize_forbidden_iff:
  assumes "user req = Some u"
  shows "((authorize roles req = Inl (forbidden ''Insufficient permissions'' None))
            = (roles \<noteq> [] \<and> role_or_empty (user_role u) \<notin> set roles))
       \<and> ((authorize roles req = Inr req)
            = (roles = [] \<or> role_or_empty (user_role u) \<in> set roles))
       \<and> (\<forall>r. user_role u = Some r \<longrightarrow>
             (authorize roles req = Inl (forbidden ''Insufficient permissions'' None))
               = (roles \<noteq> [] \<and> r \<notin> set roles))"
  using authorize_user [OF assms, of roles] by auto

theorem authorize_forbidden_iff_witness:
  "authorize [''editor''] (sample_request None (Some admin_identity))
     = Inl (forbidden ''Insufficient permissions'' None)
   \<and> authorize [''editor'', ''admin''] (sample_request None (Some admin_identity))
     = Inr (sample_request None (Some admin_identity))
   \<and> authorize [] (sample_request None (Some roleless_identity))
     = Inr (sample_request None (Some roleless_identity))"
proof -
  have u: "user (sample_request None (Some admin_identity)) = Some admin_identity"
    by (simp add: sample_request_def)
  have v: "user (sample_request None (Some roleless_identity)) = Some roleless_identity"
    by (simp add: sample_request_def)
  have r: "user_role admin_identity = Some ''admin''"
    by (simp add: admin_identity_def)
  show ?thesis
    using authorize_forbidden_iff [OF u, of "[''editor'']", THEN conjunct2, THEN conjunct2,
        rule_format, OF r]
      authorize_forbidden_iff [OF u, of "[''editor'', ''admin'']", THEN conjunct2,
        THEN conjunct1]
      authorize_forbidden_iff [OF v, of "[]", THEN conjunct2, THEN conjunct1]
    by (simp add: r)
qed

text \<open>
  The claim as it was stated fails for an identity without a role when the empty string
  is among the required roles: the role is not among them, yet the request passes.
\<close>

theorem authorize_roleless_counterexample:
  "user (sample_request None (Some roleless_identity)) = Some roleless_identity
   \<and> user_role roleless_identity = None
   \<and> [[]] \<noteq> ([] :: string list)
   \<and> user_role roleless_identity \<notin> Some ` set [[]]
   \<and> authorize [[]] (sample_request None (Some roleless_identity))
       = Inr (sample_request None (Some roleless_identity))"
  by (simp add: authorize_def sample_request_def roleless_identity_def)

lemma verifyToken_failure: "verify token = Inl err \<Longrightarrow>
     verifyToken verify token = Inl (unauthorized ''Invalid token'' None)"
  by (simp add: verifyToken_def)

lemma verifyToken_success: "verify token = Inr decoded \<Longrightarrow> verifyToken verify token = Inr decoded"
  by (simp add: verifyToken_def)

text \<open>
  Claim C10. \<open>verifyToken\<close> throws one and the same unauthorized error \<open>Invalid token\<close>
  whatever verification throws, and returns the decoded payload when verification
  succeeds; \<open>authenticate\<close>, on an expired token, throws \<open>Token has expired\<close>, a
  different error, and \<open>Invalid token\<close> on a token the library rejects otherwise.
\<close>

theorem verifyToken_collapses_failures:
  "(\<forall>err. verify token = Inl err \<longrightarrow>
       verifyToken verify token = Inl (unauthorized ''Invalid token'' None))
   \<and> (\<forall>decoded. verify token = Inr decoded \<longrightarrow> verifyToken verify token = Inr decoded)
   \<and> (\<forall>m. verify token = Inl (TokenExpiredError m)
           \<and> authorization req = Some (''Bearer '' @ token) \<longrightarrow>
         authenticate verify req = Inl (unauthorized ''Token has expired'' None)
         \<and> unauthorized ''Token has expired'' None \<noteq> unauthorized ''Invalid token'' None)
   \<and> (\<forall>m. verify token = Inl (JsonWebTokenError m)
           \<and> authorization req = Some (''Bearer '' @ token) \<longrightarrow>
         authenticate verify req = Inl (unauthorized ''Invalid token'' None))"
proof (intro conjI allI impI)
  fix err assume "verify token = Inl err"
  then show "verifyToken verify token = Inl (unauthorized ''Invalid token'' None)"
    by (rule verifyToken_failure)
next
  fix decoded assume "verify token = Inr decoded"
  then show "verifyToken verify token = Inr decoded"
    by (rule verifyToken_success)
next
  fix m assume a: "verify token = Inl (TokenExpiredError m)
       \<and> authorization req = Some (''Bearer '' @ token)"
  then show "authenticate verify req = Inl (unauthorized ''Token has expired'' None)"
    using authenticate_bearer [of req token verify] by simp
next
  show "unauthorized ''Token has expired'' None \<noteq> unauthorized ''Invalid token'' None"
    by (simp add: unauthorized_inject)
next
  fix m assume a: "verify token = Inl (JsonWebTokenError m)
       \<and> authorization req = Some (''Bearer '' @ token)"
  then show "authenticate verify req = Inl (unauthorized ''Invalid token'' None)"
    using authenticate_bearer [of req token verify] by simp
qed

theorem verifyToken_collapses_failures_witness:
  "verifyToken sample_verify ''expired'' = Inl (unauthorized ''Invalid token'' None)
   \<and> verifyToken sample_verify ''tampered'' = Inl (unauthorized ''Invalid token'' None)
   \<and> verifyToken sample_verify ''not a token'' = Inl (unauthorized ''Invalid token'' None)
   \<and> verifyToken sample_verify ''good'' = Inr sample_claims
   \<and> authenticate sample_verify (sample_request (Some ''Bearer expired'') None)
       = Inl (unauthorized ''Token has expired'' None)
   \<and> authenticate sample_verify (sample_request (Some ''Bearer tampered'') None)
       = Inl (unauthorized ''Invalid token'' None)"
proof -
  have e: "sample_verify ''expired'' = Inl (TokenExpiredError ''jwt expired'')"
    by (simp add: sample_verify_def)
  have t: "sample_verify ''tampered'' = Inl (JsonWebTokenError ''invalid signature'')"
    by (simp add: sample_verify_def)
  have n: "sample_verify ''not a token'' = Inl (JsonWebTokenError ''jwt malformed'')"
    by (simp add: sample_verify_def)
  have g: "sample_verify ''good'' = Inr sample_claims"
    by (simp add: sample_verify_def)
  have h: "authorization (sample_request (Some ''Bearer expired'') None)
             = Some (''Bearer '' @ ''expired'')"
    by (simp add: sample_request_def)
  have h': "authorization (sample_request (Some ''Bearer tampered'') None)
             = Some (''Bearer '' @ ''tampered'')"
    by (simp add: sample_request_def)
  note c = verifyToken_collapses_failures [where verify = sample_verify]
  show ?thesis
    using c [of "''expired''", THEN conjunct1, rule_format, OF e]
      c [of "''tampered''", THEN conjunct1, rule_format, OF t]
      c [of "''not a token''", THEN conjunct1, rule_format, OF n]
      c [of "''good''", THEN conjunct2, THEN conjunct1, rule_format, OF g]
      c [of "''expired''" "sample_request (Some ''Bearer expired'') None",
         THEN conjunct2, THEN conjunct2, THEN conjunct1, rule_format, OF conjI [OF e h]]
      c [of "''tampered''" "sample_request (Some ''Bearer tampered'') None",
         THEN conjunct2, THEN conjunct2, THEN conjunct2, rule_format, OF conjI [OF t h']]
    by simp
qed

section \<open>Properties of the validation gate\<close>

lemma push_details_messages: "push_details s v acc = acc @ messages s v"
proof (cases s)
  case None
  then show ?thesis by (simp add: push_details_def messages_def violated_def)
next
  case (Some sch)
  have m: "List.map_filter (\<lambda>r. r v) (rules sch) = messages (Some sch) v"
    by (simp add: messages_def violated_def List.map_filter_def comp_def)
  show ?thesis
    unfolding push_details_def schema_validate_def Some option.case m
    by (cases "messages (Some sch) v") simp_all
qed

text \<open>
  Claim C4. \<open>validate\<close> passes the request on when no rule of the declared schemas is
  violated by its input; otherwise it throws one validation error \<open>Validation failed\<close>
  whose \<open>errors\<close> are the messages of every violated rule of the body schema, then of
  the params schema, then of the query schema: one message per violated rule.
\<close>

theorem validate_collects_all:
  "validate schema req =
     (if violated (schema_body schema) (body req) = []
         \<and> violated (schema_params schema) (params req) = []
         \<and> violated (schema_query schema) (query req) = []
      then Inr req
      else Inl (validation ''Validation failed''
                  (Some (Errors (messages (schema_body schema) (body req)
                                 @ messages (schema_params schema) (params req)
                                 @ messages (schema_query schema) (query req))))))
   \<and> length (messages (schema_body schema) (body req)
             @ messages (schema_params schema) (params req)
             @ messages (schema_query schema) (query req))
      = length (violated (schema_body schema) (body req))
        + length (violated (schema_params schema) (params req))
        + length (violated (schema_query schema) (query req))"
  by (simp add: validate_def push_details_messages Let_def messages_def)

theorem validate_collects_all_witness:
  "validate sample_schema bad_request
     = Inl (validation ''Validation failed''
              (Some (Errors [''email is required'', ''password is too short'', ''id is required''])))
   \<and> validate sample_schema good_request = Inr good_request"
  using validate_collects_all [of sample_schema bad_request, THEN conjunct1]
    validate_collects_all [of sample_schema good_request, THEN conjunct1]
  by (simp add: sample_schema_def bad_request_def good_request_def sample_request_def
      violated_def messages_def required_def min_length_def)

section \<open>Properties of the error handler\<close>

lemma handler_summary:
  "summary (globalErrorHandler env now err req) =
     (case classify env err of
        Inl ex \<Rightarrow> None
      | Inr (sc, ty, msg, cx) \<Rightarrow> Some (status_number sc, ty, msg))"
  by (simp add: summary_def globalErrorHandler_def split: sum.splits prod.splits)

lemma handler_envelope:
  "globalErrorHandler env now err req = Inr res \<Longrightarrow>
     error_statusCode (json res) = status res
     \<and> error_timestamp (json res) = now
     \<and> error_path (json res) = originalUrl req
     \<and> error_method (json res) = method req
     \<and> error_stack (json res) = (if env = ''development'' then Some (thrown_stack err) else None)
     \<and> error_context (json res) = (case err of App a \<Rightarrow> context a | Native e \<Rightarrow> None)"
  by (auto simp: globalErrorHandler_def classify_def split: sum.splits prod.splits thrown.splits
      if_splits js_value.splits)

text \<open>
  Claim C3, as amended. The handler answers an \<open>AppError\<close> with its own status, type and
  message. Any other error is classified by name first: \<open>ValidationError\<close> gives 422,
  \<open>CastError\<close> 400, \<open>JsonWebTokenError\<close> and \<open>TokenExpiredError\<close> 401 with the
  authentication type. An error of no such name is classified by its code: \<open>ER_DUP_ENTRY\<close>
  gives 409 with the duplicate type; any other code that starts with \<open>ER_\<close> gives 500 with
  the database type, and its message is replaced by \<open>Database error occurred\<close> only when
  \<open>NODE_ENV\<close> is \<open>production\<close>; an error with no code, or with a string code of another
  form, gives 500 with the internal type and the generic message. Every response the
  handler sends repeats the status in the envelope and carries the timestamp, the path
  and the method, the stack exactly in development, and the context of an \<open>AppError\<close>.
  Nothing is said here of an error whose code is a non-zero number.
\<close>

theorem globalErrorHandler_classification:
  "summary (globalErrorHandler env now (App a) req)
     = Some (status_number (statusCode a), type a, message a)
   \<and> (name e = ''ValidationError'' \<longrightarrow>
        summary (globalErrorHandler env now (Native e) req)
          = Some (422, VALIDATION_ERROR,
                  if message e \<noteq> [] then message e else ''Validation failed''))
   \<and> (name e = ''CastError'' \<longrightarrow>
        summary (globalErrorHandler env now (Native e) req)
          = Some (400, BAD_REQUEST_ERROR, ''Invalid resource ID''))
   \<and> (name e = ''JsonWebTokenError'' \<longrightarrow>
        summary (globalErrorHandler env now (Native e) req)
          = Some (401, AUTHENTICATION_ERROR, ''Invalid token''))
   \<and> (name e = ''TokenExpiredError'' \<longrightarrow>
        summary (globalErrorHandler env now (Native e) req)
          = Some (401, AUTHENTICATION_ERROR, ''Token expired''))
   \<and> (name e \<notin> set recognised_names \<and> code e = JString ''ER_DUP_ENTRY'' \<longrightarrow>
        summary (globalErrorHandler env now (Native e) req)
          = Some (409, DUPLICATE_ERROR, ''Duplicate entry found''))
   \<and> (\<forall>c. name e \<notin> set recognised_names \<and> code e = JString c \<and> c \<noteq> ''ER_DUP_ENTRY''
           \<and> startsWith c ''ER_'' \<longrightarrow>
        summary (globalErrorHandler env now (Native e) req)
          = Some (500, DATABASE_ERROR,
                  if env = ''production'' then ''Database error occurred'' else message e))
   \<and> (name e \<notin> set recognised_names
        \<and> (code e = JUndefined \<or> code e = JNumber 0
             \<or> (\<exists>c. code e = JString c \<and> \<not> startsWith c ''ER_'')) \<longrightarrow>
        summary (globalErrorHandler env now (Native e) req)
          = Some (500, INTERNAL_SERVER_ERROR, ''Something went wrong!''))
   \<and> (\<forall>res. globalErrorHandler env now err req = Inr res \<longrightarrow>
        error_statusCode (json res) = status res
        \<and> error_timestamp (json res) = now
        \<and> error_path (json res) = originalUrl req
        \<and> error_method (json res) = method req
        \<and> error_stack (json res)
            = (if env = ''development'' then Some (thrown_stack err) else None)
        \<and> error_context (json res)
            = (case err of App a \<Rightarrow> context a | Native e \<Rightarrow> None))"
proof (intro conjI allI impI)
  show "summary (globalErrorHandler env now (App a) req)
     = Some (status_number (statusCode a), type a, message a)"
    by (simp add: handler_summary classify_def)
next
  show "\<And>res. globalErrorHandler env now err req = Inr res \<Longrightarrow> error_statusCode (json res) = status res"
    and "\<And>res. globalErrorHandler env now err req = Inr res \<Longrightarrow> error_timestamp (json res) = now"
    and "\<And>res. globalErrorHandler env now err req = Inr res \<Longrightarrow> error_path (json res) = originalUrl req"
    and "\<And>res. globalErrorHandler env now err req = Inr res \<Longrightarrow> error_method (json res) = method req"
    and "\<And>res. globalErrorHandler env now err req = Inr res \<Longrightarrow> error_stack (json res)
            = (if env = ''development'' then Some (thrown_stack err) else None)"
    and "\<And>res. globalErrorHandler env now err req = Inr res \<Longrightarrow> error_context (json res)
            = (case err of App a \<Rightarrow> context a | Native e \<Rightarrow> None)"
    using handler_envelope [of env now err req] by blast+
qed (auto simp: handler_summary classify_def recognised_names_def startsWith_def)

theorem globalErrorHandler_classification_witness:
  "summary (globalErrorHandler ''production'' ''2026-01-01T00:00:00.000Z''
              (App (notFound ''User not found'' None)) (sample_request None None))
     = Some (404, NOT_FOUND_ERROR, ''User not found'')
   \<and> summary (globalErrorHandler ''production'' ''2026-01-01T00:00:00.000Z''
              (Native (named_error ''ValidationError'')) (sample_request None None))
     = Some (422, VALIDATION_ERROR, ''email must be valid'')
   \<and> summary (globalErrorHandler ''production'' ''2026-01-01T00:00:00.000Z''
              (Native (named_error ''CastError'')) (sample_request None None))
     = Some (400, BAD_REQUEST_ERROR, ''Invalid resource ID'')
   \<and> summary (globalErrorHandler ''production'' ''2026-01-01T00:00:00.000Z''
              (Native (named_error ''JsonWebTokenError'')) (sample_request None None))
     = Some (401, AUTHENTICATION_ERROR, ''Invalid token'')
   \<and> summary (globalErrorHandler ''production'' ''2026-01-01T00:00:00.000Z''
              (Native (named_error ''TokenExpiredError'')) (sample_request None None))
     = Some (401, AUTHENTICATION_ERROR, ''Token expired'')
   \<and> summary (globalErrorHandler ''production'' ''2026-01-01T00:00:00.000Z''
              (Native duplicate_entry) (sample_request None None))
     = Some (409, DUPLICATE_ERROR, ''Duplicate entry found'')
   \<and> summary (globalErrorHandler ''production'' ''2026-01-01T00:00:00.000Z''
              (Native table_missing) (sample_request None None))
     = Some (500, DATABASE_ERROR, ''Database error occurred'')
   \<and> summary (globalErrorHandler ''production'' ''2026-01-01T00:00:00.000Z''
              (Native connection_lost) (sample_request None None))
     = Some (500, INTERNAL_SERVER_ERROR, ''Something went wrong!'')
   \<and> summary (globalErrorHandler ''production'' ''2026-01-01T00:00:00.000Z''
              (Native (named_error ''RangeError'')) (sample_request None None))
     = Some (500, INTERNAL_SERVER_ERROR, ''Something went wrong!'')"
proof -
  note t = globalErrorHandler_classification [where env = "''production''"
      and now = "''2026-01-01T00:00:00.000Z''" and req = "sample_request None None"]
  have n: "name (named_error ''ValidationError'') = ''ValidationError''"
    "name (named_error ''CastError'') = ''CastError''"
    "name (named_error ''JsonWebTokenError'') = ''JsonWebTokenError''"
    "name (named_error ''TokenExpiredError'') = ''TokenExpiredError''"
    by (simp_all add: named_error_def)
  have d: "name duplicate_entry \<notin> set recognised_names
      \<and> code duplicate_entry = JString ''ER_DUP_ENTRY''"
    by (simp add: duplicate_entry_def recognised_names_def)
  have m: "name table_missing \<notin> set recognised_names
      \<and> code table_missing = JString ''ER_NO_SUCH_TABLE''
      \<and> ''ER_NO_SUCH_TABLE'' \<noteq> ''ER_DUP_ENTRY'' \<and> startsWith ''ER_NO_SUCH_TABLE'' ''ER_''"
    by (simp add: table_missing_def recognised_names_def startsWith_def)
  have c: "name connection_lost \<notin> set recognised_names
      \<and> (code connection_lost = JUndefined \<or> code connection_lost = JNumber 0
           \<or> (\<exists>c. code connection_lost = JString c \<and> \<not> startsWith c ''ER_''))"
    by (simp add: connection_lost_def recognised_names_def startsWith_def)
  have r: "name (named_error ''RangeError'') \<notin> set recognised_names
      \<and> (code (named_error ''RangeError'') = JUndefined
           \<or> code (named_error ''RangeError'') = JNumber 0
           \<or> (\<exists>c. code (named_error ''RangeError'') = JString c \<and> \<not> startsWith c ''ER_''))"
    by (simp add: named_error_def recognised_names_def)
  have a: "summary (globalErrorHandler ''production'' ''2026-01-01T00:00:00.000Z''
              (App (notFound ''User not found'' None)) (sample_request None None))
     = Some (404, NOT_FOUND_ERROR, ''User not found'')"
    using t [of "notFound ''User not found'' None", THEN conjunct1]
    by (simp add: notFound_def new_AppError_def)
  note c2 = t [THEN conjunct2, THEN conjunct1, rule_format]
  note c3 = t [THEN conjunct2, THEN conjunct2, THEN conjunct1, rule_format]
  note c4 = t [THEN conjunct2, THEN conjunct2, THEN conjunct2, THEN conjunct1, rule_format]
  note c5 = t [THEN conjunct2, THEN conjunct2, THEN conjunct2, THEN conjunct2, THEN conjunct1,
      rule_format]
  note c6 = t [THEN conjunct2, THEN conjunct2, THEN conjunct2, THEN conjunct2, THEN conjunct2,
      THEN conjunct1, rule_format]
  note c7 = t [THEN conjunct2, THEN conjunct2, THEN conjunct2, THEN conjunct2, THEN conjunct2,
      THEN conjunct2, THEN conjunct1, rule_format]
  note c8 = t [THEN conjunct2, THEN conjunct2, THEN conjunct2, THEN conjunct2, THEN conjunct2,
      THEN conjunct2, THEN conjunct2, THEN conjunct1, rule_format]
  show ?thesis
    using a c2 [OF n(1)] c3 [OF n(2)] c4 [OF n(3)] c5 [OF n(4)] c6 [OF d] c7 [OF m] c8 [OF c]
      c8 [OF r]
    by (simp add: named_error_def)
qed

text \<open>
  The claim as it was stated has the message of a driver error redacted outside
  development builds, and every error outside its list answered as an internal error.
  With \<open>NODE_ENV\<close> set to \<open>test\<close> the driver's message is sent as it is; and an error
  named \<open>ValidationError\<close>, which the claim does not list, is answered with 422.
\<close>

theorem globalErrorHandler_redaction_counterexample:
  "summary (globalErrorHandler ''test'' ''2026-01-01T00:00:00.000Z''
              (Native table_missing) (sample_request None None))
     = Some (500, DATABASE_ERROR, ''Table app.users does not exist'')
   \<and> message table_missing = ''Table app.users does not exist''
   \<and> ''test'' \<noteq> ''development''
   \<and> summary (globalErrorHandler ''production'' ''2026-01-01T00:00:00.000Z''
              (Native (named_error ''ValidationError'')) (sample_request None None))
     = Some (422, VALIDATION_ERROR, ''email must be valid'')"
  by (simp add: handler_summary classify_def table_missing_def named_error_def startsWith_def)

section \<open>Properties of the storage layer\<close>

lemma perform_fst: "fst (perform drv c w) = drv (trace w) c"
  by (simp add: perform_def Let_def)

lemma perform_snd: "snd (perform drv c w) = w\<lparr> trace := trace w @ [(c, drv (trace w) c)] \<rparr>"
  by (simp add: perform_def Let_def)

lemma perform_eq:
  "perform drv c w = (r, w') \<longleftrightarrow>
     r = drv (trace w) c \<and> w' = w\<lparr> trace := trace w @ [(c, r)] \<rparr>"
  by (auto simp: perform_def Let_def)

lemma trace_logger [simp]: "trace (logger lv msg m w) = trace w"
  by (simp add: logger_def)

lemma trace_log_if [simp]: "trace (log_if b lv msg m w) = trace w"
  by (simp add: log_if_def)

lemma trace_release [simp]: "trace (release w) = trace w @ [(Release, Returned void)]"
  by (simp add: release_def)

lemma pool_logger [simp]: "pool (logger lv msg m w) = pool w"
  by (simp add: logger_def)

lemma pool_log_if [simp]: "pool (log_if b lv msg m w) = pool w"
  by (simp add: log_if_def)

lemma pool_release [simp]: "pool (release w) = pool w"
  by (simp add: release_def)

lemma checkouts_append [simp]: "checkouts (xs @ ys) = checkouts xs + checkouts ys"
  by (simp add: checkouts_def)

lemma checkins_append [simp]: "checkins (xs @ ys) = checkins xs + checkins ys"
  by (simp add: checkins_def)

lemma checkouts_single:
  "checkouts [(c, r)] = (if c = GetConnection \<and> (\<exists>x. r = Returned x) then 1 else 0)"
  by (cases c; cases r) (simp_all add: checkouts_def)

lemma checkins_single: "checkins [(c, r)] = (if c = Release then 1 else 0)"
  by (cases c) (simp_all add: checkins_def)

lemma held_refl [simp]: "held w w = 0"
  by (simp add: held_def)

lemma held_logger [simp]: "held w (logger lv msg m w') = held w w'"
  by (simp add: held_def)

lemma held_log_if [simp]: "held w (log_if b lv msg m w') = held w w'"
  by (simp add: held_def)

lemma held_release [simp]: "held w (release w') = held w w' - 1"
  by (simp add: held_def checkins_single checkouts_single)

lemma held_perform:
  "perform drv c w' = (r, w'') \<Longrightarrow>
     held w w'' = held w w' + (if c = GetConnection \<and> (\<exists>x. r = Returned x) then 1 else 0)
                            - (if c = Release then 1 else 0)"
  by (auto simp: perform_eq held_def checkins_single checkouts_single)

lemma held_run_queries:
  "run_queries drv lg qs results w' = (res, w'') \<Longrightarrow> held w w'' = held w w'"
proof (induction qs arbitrary: results w')
  case Nil
  then show ?case by simp
next
  case (Cons a qs)
  obtain q ps where a: "a = (q, ps)" by (cases a)
  show ?case
    using Cons.prems Cons.IH unfolding a
    by (auto split: prod.splits outcome.splits dest!: held_perform [where w = w])
qed

lemma held_run_callback:
  "run_callback cb drv w' = (res, w'') \<Longrightarrow> held w w'' = held w w'"
proof (induction cb arbitrary: w' res w'')
  case (Return x)
  then show ?case by simp
next
  case (Throw e)
  then show ?case by simp
next
  case (Run q ps k)
  obtain r w1 where p: "perform drv (Execute q ps) w' = (r, w1)"
    by (cases "perform drv (Execute q ps) w'")
  have "held w w1 = held w w'"
    using held_perform [OF p, of w] by simp
  moreover have "held w w'' = held w w1"
    using Run.prems p Run.IH [of "k r" w1 res w''] by (simp add: rangeI)
  ultimately show ?case by simp
qed

lemma held_on_error:
  "on_error drv lg mode msg w' = (res, w'') \<Longrightarrow> held w w'' = held w w' - 1"
  by (auto simp: on_error_def split: prod.splits outcome.splits dest!: held_perform [where w = w])

lemma held_execute: "execute drv q ps lg w = (res, w') \<Longrightarrow> held w w' = 0"
  by (auto simp: execute_def Let_def getPool_def split: prod.splits outcome.splits if_splits
      dest!: held_perform [where w = w])

lemma executeTransaction_eq:
  "executeTransaction drv qs lg w = in_transaction drv lg [] (queries_body drv lg qs) w"
  unfolding executeTransaction_def in_transaction_def queries_body_def
  by (simp split: sum.splits prod.splits outcome.splits)

lemma withTransaction_eq:
  "withTransaction drv cb lg w =
     in_transaction drv lg '' (callback mode)'' (run_callback cb drv) w"
  unfolding withTransaction_def in_transaction_def
  by (simp split: sum.splits prod.splits outcome.splits)

lemma held_in_transaction:
  assumes work: "\<And>w1 r w2. work w1 = (r, w2) \<Longrightarrow> held w w2 = held w w1"
    and run: "in_transaction drv lg mode work w = (res, w')"
  shows "held w w' = 0"
proof (cases "pool w")
  case False
  then show ?thesis using run by (auto simp: in_transaction_def getPool_def)
next
  case True
  obtain r1 w1 where p1: "perform drv GetConnection w = (r1, w1)"
    by (cases "perform drv GetConnection w")
  show ?thesis
  proof (cases r1)
    case (Threw e)
    then show ?thesis
      using run True p1 held_perform [OF p1, of w]
      by (simp add: in_transaction_def getPool_def)
  next
    case (Returned c)
    then have h1: "held w w1 = 1"
      using held_perform [OF p1, of w] by simp
    obtain r2 w2 where p2: "perform drv BeginTransaction w1 = (r2, w2)"
      by (cases "perform drv BeginTransaction w1")
    have h2: "held w w2 = 1"
      using held_perform [OF p2, of w] h1 by simp
    show ?thesis
    proof (cases r2)
      case (Threw e)
      then show ?thesis
        using run True p1 p2 Returned h2 held_on_error [of drv lg mode _ w2 res w' w]
        by (simp add: in_transaction_def getPool_def)
    next
      case b: (Returned b)
      obtain r3 w3 where p3:
        "work (log_if lg INFO (''Transaction started'' @ mode) [] w2) = (r3, w3)"
        by (cases "work (log_if lg INFO (''Transaction started'' @ mode) [] w2)")
      have h3: "held w w3 = 1"
        using work [OF p3] h2 by simp
      show ?thesis
      proof (cases r3)
        case (Inl e)
        then show ?thesis
          using run True p1 p2 p3 Returned b h3 held_on_error [of drv lg mode _ w3 res w' w]
          by (simp add: in_transaction_def getPool_def)
      next
        case (Inr result)
        obtain r4 w4 where p4: "perform drv Commit w3 = (r4, w4)"
          by (cases "perform drv Commit w3")
        have h4: "held w w4 = 1"
          using held_perform [OF p4, of w] h3 by simp
        show ?thesis
        proof (cases r4)
          case (Threw e)
          then show ?thesis
            using run True p1 p2 p3 p4 Returned b Inr h4
              held_on_error [of drv lg mode _ w4 res w' w]
            by (simp add: in_transaction_def getPool_def)
        next
          case c: (Returned r)
          then show ?thesis
            using run True p1 p2 p3 p4 Returned b Inr h4
            by (auto simp: in_transaction_def getPool_def)
        qed
      qed
    qed
  qed
qed

lemma held_queries_body:
  "queries_body drv lg qs w1 = (r, w2) \<Longrightarrow> held w w2 = held w w1"
  by (auto simp: queries_body_def split: prod.splits sum.splits dest: held_run_queries)

lemma held_executeTransaction:
  "executeTransaction drv qs lg w = (res, w') \<Longrightarrow> held w w' = 0"
  unfolding executeTransaction_eq
  by (rule held_in_transaction [of "queries_body drv lg qs"]) (auto dest: held_queries_body)

lemma held_withTransaction:
  "withTransaction drv cb lg w = (res, w') \<Longrightarrow> held w w' = 0"
  unfolding withTransaction_eq
  by (rule held_in_transaction [of "run_callback cb drv"]) (auto dest: held_run_callback)

lemma held_simpleTransaction:
  "simpleTransaction drv ops lg w = (res, w') \<Longrightarrow> held w w' = 0"
  unfolding simpleTransaction_def
  by (auto split: sum.splits dest: held_executeTransaction)

lemma idle_held: "held w w' = 0 \<Longrightarrow> idle n (trace w') = idle n (trace w)"
  by (simp add: idle_def held_def)

text \<open>
  Claim C2. \<open>execute\<close>, \<open>executeTransaction\<close>, \<open>withTransaction\<close> and
  \<open>simpleTransaction\<close> leave the pool's idle count as they found it, whatever the driver
  answers and whether they return or throw: every connection they check out they check
  back in.
\<close>

theorem release_guarantee:
  "idle n (trace (snd (execute drv q ps logQuery w))) = idle n (trace w)
   \<and> idle n (trace (snd (executeTransaction drv queries logQuery w))) = idle n (trace w)
   \<and> idle n (trace (snd (withTransaction drv cb logQuery w))) = idle n (trace w)
   \<and> idle n (trace (snd (simpleTransaction drv operations logQuery w))) = idle n (trace w)"
proof (intro conjI)
  show "idle n (trace (snd (execute drv q ps logQuery w))) = idle n (trace w)"
    by (rule idle_held, rule held_execute [of drv q ps logQuery w]) (rule prod.collapse [symmetric])
  show "idle n (trace (snd (executeTransaction drv queries logQuery w))) = idle n (trace w)"
    by (rule idle_held, rule held_executeTransaction [of drv queries logQuery w]) (rule prod.collapse [symmetric])
  show "idle n (trace (snd (withTransaction drv cb logQuery w))) = idle n (trace w)"
    by (rule idle_held, rule held_withTransaction [of drv cb logQuery w]) (rule prod.collapse [symmetric])
  show "idle n (trace (snd (simpleTransaction drv operations logQuery w))) = idle n (trace w)"
    by (rule idle_held, rule held_simpleTransaction [of drv operations logQuery w]) (rule prod.collapse [symmetric])
qed

lemma logs_release [simp]: "logs (release w) = logs w"
  by (simp add: release_def)

lemma logs_logger [simp]: "logs (logger lv msg m w) = logs w @ [(lv, msg, m)]"
  by (simp add: logger_def)

lemma logs_log_if [simp]: "logs (log_if b lv msg m w) = logs w @ (if b then [(lv, msg, m)] else [])"
  by (simp add: log_if_def)

lemma on_error_result:
  "fst (on_error drv lg mode msg w) = Inl (App (database (''Transaction failed: '' @ msg) None))"
  by (simp add: on_error_def perform_def Let_def split: outcome.splits)

lemma on_error_trace:
  "trace (snd (on_error drv lg mode msg w))
     = trace w @ [(Rollback, drv (trace w) Rollback), (Release, Returned void)]"
  by (simp add: on_error_def perform_def Let_def split: outcome.splits)

lemma on_error_logs:
  "logs (snd (on_error drv lg mode msg w))
     = logs w @ failure_report lg mode msg (drv (trace w) Rollback)"
  by (simp add: on_error_def perform_def Let_def failure_report_def split: outcome.splits)

lemma run_queries_trace:
  "run_queries drv lg qs results w = (res, w') \<Longrightarrow>
     \<exists>stmts. trace w' = trace w @ stmts \<and> list_all is_statement stmts"
proof (induction qs arbitrary: results w)
  case Nil
  then show ?case by simp
next
  case (Cons a qs)
  obtain q ps where a: "a = (q, ps)" by (cases a)
  define c where "c = Execute q (case ps of None \<Rightarrow> [] | Some p \<Rightarrow> p)"
  define w0 where "w0 = log_if lg INFO ''Executing transaction query'' [(''query'', q)] w"
  obtain r w1 where p: "perform drv c w0 = (r, w1)"
    by (cases "perform drv c w0")
  have t1: "trace w1 = trace w @ [(c, r)]"
    using p by (simp add: perform_eq w0_def)
  have s: "is_statement (c, r)"
    by (simp add: c_def)
  show ?case
  proof (cases r)
    case (Threw e)
    then have "w' = w1"
      using Cons.prems p unfolding a by (simp add: c_def w0_def)
    then show ?thesis using t1 s by auto
  next
    case (Returned x)
    then have "run_queries drv lg qs (results @ [result_of x]) w1 = (res, w')"
      using Cons.prems p unfolding a by (simp add: c_def w0_def)
    from Cons.IH [OF this] obtain stmts where
      "trace w' = trace w1 @ stmts" "list_all is_statement stmts" by blast
    then have "trace w' = trace w @ ((c, r) # stmts) \<and> list_all is_statement ((c, r) # stmts)"
      using t1 s by simp
    then show ?thesis by blast
  qed
qed

lemma run_callback_trace:
  "run_callback cb drv w = (res, w') \<Longrightarrow>
     \<exists>stmts. trace w' = trace w @ stmts \<and> list_all is_statement stmts"
proof (induction cb arbitrary: w res w')
  case (Return x)
  then show ?case by simp
next
  case (Throw e)
  then show ?case by simp
next
  case (Run q ps k)
  obtain r w1 where p: "perform drv (Execute q ps) w = (r, w1)"
    by (cases "perform drv (Execute q ps) w")
  have t1: "trace w1 = trace w @ [(Execute q ps, r)]"
    using p by (simp add: perform_eq)
  have "run_callback (k r) drv w1 = (res, w')"
    using Run.prems p by simp
  from Run.IH [OF rangeI this] obtain stmts where
    "trace w' = trace w1 @ stmts" "list_all is_statement stmts" by blast
  then have "trace w' = trace w @ ((Execute q ps, r) # stmts)
      \<and> list_all is_statement ((Execute q ps, r) # stmts)"
    using t1 by simp
  then show ?case by blast
qed

lemma apply_statements:
  "list_all is_statement stmts \<Longrightarrow> pending s = Some p \<Longrightarrow>
     durable (foldl apply_event s stmts) = durable s
     \<and> pending (foldl apply_event s stmts) \<noteq> None"
proof (induction stmts arbitrary: s p)
  case Nil
  then show ?case by simp
next
  case (Cons ev stmts)
  obtain c r where ev: "ev = (c, r)" by (cases ev)
  from Cons.prems(1) obtain q ps where c: "c = Execute q ps"
    unfolding ev by (cases c) simp_all
  show ?case
  proof (cases r)
    case (Returned x)
    have "pending (apply_event s ev) = Some (p @ [(q, ps)])"
      and "durable (apply_event s ev) = durable s"
      using Cons.prems(2) by (simp_all add: ev c Returned)
    then show ?thesis
      using Cons.IH [of "apply_event s ev" "p @ [(q, ps)]"] Cons.prems(1) by simp
  next
    case (Threw e)
    have "apply_event s ev = s"
      by (simp add: ev c Threw)
    then show ?thesis
      using Cons.IH [of s p] Cons.prems by simp
  qed
qed

lemma effects_rolled_back:
  assumes "trace w' = trace w @ [(GetConnection, Returned c), (BeginTransaction, Returned b)]
             @ stmts @ [(Rollback, ro), (Release, rl)]"
    and "list_all is_statement stmts"
  shows "effects w w' = []"
proof -
  define s0 where "s0 = \<lparr> durable = [], pending = Some [] \<rparr>"
  define s1 where "s1 = foldl apply_event s0 stmts"
  have s1: "durable s1 = [] \<and> pending s1 \<noteq> None"
    using apply_statements [OF assms(2), of s0 "[]"] by (simp add: s1_def s0_def)
  have "durable (apply_event (apply_event s1 (Rollback, ro)) (Release, rl)) = []"
    using s1 by (cases ro) simp_all
  then show ?thesis
    by (simp add: effects_def assms(1) s1_def s0_def)
qed

lemma in_transaction_failure:
  assumes pool: "pool w"
    and checkout: "perform drv GetConnection w = (Returned c, w1)"
    and started: "perform drv BeginTransaction w1 = (Returned b, w2)"
    and work: "work (log_if lg INFO (''Transaction started'' @ mode) [] w2) = (Inl e, w3)"
    and stmts: "\<exists>stmts. trace w3 = trace w2 @ stmts \<and> list_all is_statement stmts"
  shows "rolled_back drv lg mode (thrown_message e) w c b w3 (in_transaction drv lg mode work w)"
proof -
  have run: "in_transaction drv lg mode work w = on_error drv lg mode (thrown_message e) w3"
    using pool checkout started work by (simp add: in_transaction_def getPool_def)
  have t2: "trace w2 = trace w @ [(GetConnection, Returned c), (BeginTransaction, Returned b)]"
    using checkout started by (simp add: perform_eq)
  obtain ss where ss: "trace w3 = trace w2 @ ss" "list_all is_statement ss"
    using stmts by blast
  have len: "length (trace w) + 2 = length (trace w2)"
    using t2 by simp
  have eff: "effects w (snd (on_error drv lg mode (thrown_message e) w3)) = []"
    by (rule effects_rolled_back [OF _ ss(2)]) (simp add: on_error_trace ss(1) t2)
  show ?thesis
    unfolding rolled_back_def run on_error_result on_error_trace on_error_logs len eff
    using ss t2 by simp
qed

text \<open>
  Claim C1. In a transaction that has checked out a connection and begun, when a
  statement of the query list throws, or the callback throws, the orchestrator calls
  rollback once, after the statements and with no commit, so that none of the
  transaction's statements is durable; it releases the connection and throws the database
  error \<open>Transaction failed: \<close> followed by the message of the original error. It does
  so whether the rollback returns or throws; when the rollback throws, the log gains the
  entry \<open>Failed to rollback transaction\<close> with both messages before the entry
  \<open>Transaction failed\<close>.
\<close>

theorem transaction_failure_rolls_back:
  assumes "pool w"
    and "perform drv GetConnection w = (Returned c, w1)"
    and "perform drv BeginTransaction w1 = (Returned b, w2)"
  shows "(\<forall>e w3. run_queries drv lg queries [] (log_if lg INFO ''Transaction started'' [] w2)
                   = (Inl e, w3) \<longrightarrow>
            rolled_back drv lg [] (message e) w c b w3 (executeTransaction drv queries lg w))
       \<and> (\<forall>e w3. run_callback cb drv
                     (log_if lg INFO ''Transaction started (callback mode)'' [] w2)
                   = (Inl e, w3) \<longrightarrow>
            rolled_back drv lg '' (callback mode)'' (thrown_message e) w c b w3
              (withTransaction drv cb lg w))"
proof (intro conjI allI impI)
  fix e w3
  assume r: "run_queries drv lg queries [] (log_if lg INFO ''Transaction started'' [] w2)
               = (Inl e, w3)"
  then have "queries_body drv lg queries (log_if lg INFO (''Transaction started'' @ []) [] w2)
               = (Inl (Native e), w3)"
    by (simp add: queries_body_def)
  moreover have "\<exists>stmts. trace w3 = trace w2 @ stmts \<and> list_all is_statement stmts"
    using run_queries_trace [OF r] by simp
  ultimately show "rolled_back drv lg [] (message e) w c b w3 (executeTransaction drv queries lg w)"
    using in_transaction_failure [OF assms, of "queries_body drv lg queries" lg "[]" "Native e" w3]
    by (simp add: executeTransaction_eq)
next
  fix e w3
  assume r: "run_callback cb drv (log_if lg INFO ''Transaction started (callback mode)'' [] w2)
               = (Inl e, w3)"
  then have "run_callback cb drv (log_if lg INFO (''Transaction started'' @ '' (callback mode)'') [] w2)
               = (Inl e, w3)"
    by simp
  moreover have "\<exists>stmts. trace w3 = trace w2 @ stmts \<and> list_all is_statement stmts"
    using run_callback_trace [OF r] by simp
  ultimately show "rolled_back drv lg '' (callback mode)'' (thrown_message e) w c b w3
              (withTransaction drv cb lg w)"
    using in_transaction_failure [OF assms, of "run_callback cb drv" lg "'' (callback mode)''" e w3]
    by (simp add: withTransaction_eq)
qed

lemma sample_run_queries:
  "run_queries (sample_driver f) False sample_queries []
     (log_if False INFO ''Transaction started'' []
        (snd (perform (sample_driver f) BeginTransaction
           (snd (perform (sample_driver f) GetConnection fresh)))))
   = (Inl duplicate_entry,
      \<lparr> pool = True,
        trace = [(GetConnection, Returned void), (BeginTransaction, Returned void),
                 (Execute ''UPDATE profiles SET bio = ? WHERE user_id = ?''
                    [JString ''hi'', JNumber 1], Returned void),
                 (Execute ''INSERT INTO users (email) VALUES (?)'' [JString ''a@x.com''],
                    Threw duplicate_entry)],
        logs = [] \<rparr>)"
  by (simp add: sample_queries_def perform_def sample_driver_def fresh_def log_if_def Let_def)

lemma sample_run_callback:
  "run_callback sample_callback (sample_driver f)
     (log_if False INFO ''Transaction started (callback mode)'' []
        (snd (perform (sample_driver f) BeginTransaction
           (snd (perform (sample_driver f) GetConnection fresh)))))
   = (Inl (App (notFound ''Account not found'' None)),
      \<lparr> pool = True,
        trace = [(GetConnection, Returned void), (BeginTransaction, Returned void),
                 (Execute ''SELECT balance FROM accounts WHERE id = ?'' [JNumber 7],
                    Returned void)],
        logs = [] \<rparr>)"
  by (simp add: sample_callback_def perform_def sample_driver_def fresh_def log_if_def Let_def
      void_def)

lemma sample_checkout:
  "perform (sample_driver f) GetConnection fresh
     = (Returned void, snd (perform (sample_driver f) GetConnection fresh))"
  by (simp add: perform_def sample_driver_def Let_def)

lemma sample_begin:
  "perform (sample_driver f) BeginTransaction (snd (perform (sample_driver f) GetConnection fresh))
     = (Returned void,
        snd (perform (sample_driver f) BeginTransaction
          (snd (perform (sample_driver f) GetConnection fresh))))"
  by (simp add: perform_def sample_driver_def Let_def)

lemma pool_fresh: "pool fresh"
  by (simp add: fresh_def)

theorem transaction_failure_rolls_back_witness:
  "fst (executeTransaction (sample_driver False) sample_queries False fresh)
     = Inl (App (database ''Transaction failed: Duplicate entry for key users.email'' None))
   \<and> map fst (trace (snd (executeTransaction (sample_driver False) sample_queries False fresh)))
     = [GetConnection, BeginTransaction,
        Execute ''UPDATE profiles SET bio = ? WHERE user_id = ?'' [JString ''hi'', JNumber 1],
        Execute ''INSERT INTO users (email) VALUES (?)'' [JString ''a@x.com''],
        Rollback, Release]
   \<and> fst (executeTransaction (sample_driver True) sample_queries False fresh)
     = Inl (App (database ''Transaction failed: Duplicate entry for key users.email'' None))
   \<and> logs (snd (executeTransaction (sample_driver True) sample_queries False fresh))
     = [(ERROR, ''Failed to rollback transaction'',
          [(''originalError'', ''Duplicate entry for key users.email''),
           (''rollbackError'', ''Connection lost'')]),
        (ERROR, ''Transaction failed'', [(''error'', ''Duplicate entry for key users.email'')])]
   \<and> fst (withTransaction (sample_driver False) sample_callback False fresh)
     = Inl (App (database ''Transaction failed: Account not found'' None))
   \<and> map fst (trace (snd (withTransaction (sample_driver False) sample_callback False fresh)))
     = [GetConnection, BeginTransaction,
        Execute ''SELECT balance FROM accounts WHERE id = ?'' [JNumber 7], Rollback, Release]
   \<and> effects fresh (snd (executeTransaction (sample_driver False) sample_queries False fresh))
     = []
   \<and> effects fresh (snd (executeTransaction (sample_driver True) sample_queries False fresh))
     = []
   \<and> effects fresh (snd (withTransaction (sample_driver False) sample_callback False fresh))
     = []"
proof -
  note t = transaction_failure_rolls_back [OF pool_fresh sample_checkout sample_begin]
  note q = t [THEN conjunct1, rule_format, OF sample_run_queries]
  note k = t [THEN conjunct2, rule_format, OF sample_run_callback]
  have m: "message duplicate_entry = ''Duplicate entry for key users.email''"
    "message connection_lost = ''Connection lost''"
    "thrown_message (App (notFound ''Account not found'' None)) = ''Account not found''"
    by (simp_all add: duplicate_entry_def connection_lost_def notFound_def new_AppError_def)
  show ?thesis
    using q [of False] q [of True] k [of False]
    unfolding rolled_back_def m
    by (simp add: failure_report_def sample_driver_def m)
qed

theorem release_guarantee_witness:
  "idle 10 (trace (snd (execute (sample_driver False)
       ''INSERT INTO users (email) VALUES (?)'' [JString ''a@x.com''] False fresh))) = 10
   \<and> idle 10 (trace (snd (executeTransaction (sample_driver True) sample_queries True fresh)))
       = 10
   \<and> idle 10 (trace (snd (withTransaction (sample_driver False) sample_callback True fresh)))
       = 10
   \<and> idle 10 (trace (snd (simpleTransaction (sample_driver False) [delete_all] True fresh)))
       = 10"
proof -
  have f: "idle 10 (trace fresh) = 10"
    by (simp add: idle_def fresh_def checkouts_def checkins_def)
  show ?thesis
    using release_guarantee [of 10 "sample_driver False"
        "''INSERT INTO users (email) VALUES (?)''" "[JString ''a@x.com'']" False fresh
        sample_queries sample_callback "[delete_all]"]
      release_guarantee [of 10 "sample_driver True"
        "''INSERT INTO users (email) VALUES (?)''" "[JString ''a@x.com'']" True fresh
        sample_queries sample_callback "[delete_all]"]
      release_guarantee [of 10 "sample_driver False"
        "''INSERT INTO users (email) VALUES (?)''" "[JString ''a@x.com'']" True fresh
        sample_queries sample_callback "[delete_all]"]
    by (simp add: f)
qed

lemma closed_getPool:
  "\<not> pool w \<Longrightarrow> getPool w = Inl (database ''Database pool not initialized'' None)"
  by (simp add: getPool_def)

lemma database_message: "message (database m cx) = m"
  by (simp add: database_def new_AppError_def)

lemma close_returns: "fst (close drv w) = Inr () \<Longrightarrow> \<not> pool (snd (close drv w))"
  by (auto simp: close_def perform_def Let_def split: if_splits outcome.splits)

lemma closed_execute:
  "\<not> pool w \<Longrightarrow>
     execute drv q ps lg w
       = (Inl (database ''Query execution failed: Database pool not initialized'' None),
          logger ERROR ''Query execution failed''
            [(''query'', q), (''error'', ''Database pool not initialized'')] w)"
  by (simp add: execute_def closed_getPool database_message Let_def)

lemma closed_in_transaction:
  "\<not> pool w \<Longrightarrow>
     in_transaction drv lg mode work w
       = (Inl (App (database ''Database pool not initialized'' None)), w)"
  by (simp add: in_transaction_def closed_getPool)

text \<open>
  Claim C9. When \<open>close\<close> returns normally the pool is unset; and while the pool is
  unset, \<open>getPool\<close> throws the database error \<open>Database pool not initialized\<close>, so that
  \<open>execute\<close> (which wraps the message), \<open>executeTransaction\<close> and \<open>withTransaction\<close> fail
  with it before any call reaches the driver, and leave the pool unset.
\<close>

theorem checkout_after_close_fails:
  "(fst (close drv w) = Inr () \<longrightarrow> \<not> pool (snd (close drv w)))
   \<and> (\<not> pool w \<longrightarrow>
        getPool w = Inl (database ''Database pool not initialized'' None)
        \<and> fst (execute drv q ps lg w)
            = Inl (database ''Query execution failed: Database pool not initialized'' None)
        \<and> trace (snd (execute drv q ps lg w)) = trace w
        \<and> \<not> pool (snd (execute drv q ps lg w))
        \<and> executeTransaction drv queries lg w
            = (Inl (App (database ''Database pool not initialized'' None)), w)
        \<and> withTransaction drv cb lg w
            = (Inl (App (database ''Database pool not initialized'' None)), w))"
  using close_returns [of drv w]
  by (simp add: closed_getPool closed_execute executeTransaction_eq withTransaction_eq
      closed_in_transaction)

theorem checkout_after_close_fails_witness:
  "fst (close (sample_driver False) fresh) = Inr ()
   \<and> \<not> pool (snd (close (sample_driver False) fresh))
   \<and> fst (execute (sample_driver False) ''SELECT 1'' [] True
            (snd (close (sample_driver False) fresh)))
       = Inl (database ''Query execution failed: Database pool not initialized'' None)
   \<and> trace (snd (execute (sample_driver False) ''SELECT 1'' [] True
            (snd (close (sample_driver False) fresh))))
       = [(End, Returned void)]
   \<and> fst (executeTransaction (sample_driver False) sample_queries True
            (snd (close (sample_driver False) fresh)))
       = Inl (App (database ''Database pool not initialized'' None))"
proof -
  have c: "fst (close (sample_driver False) fresh) = Inr ()"
    by (simp add: close_def fresh_def perform_def sample_driver_def Let_def)
  have t: "trace (snd (close (sample_driver False) fresh)) = [(End, Returned void)]"
    by (simp add: close_def fresh_def perform_def sample_driver_def Let_def)
  note k = checkout_after_close_fails [of "sample_driver False" fresh]
  have p: "\<not> pool (snd (close (sample_driver False) fresh))"
    using k [THEN conjunct1, rule_format, OF c] .
  show ?thesis
    using c p t
      checkout_after_close_fails [where drv = "sample_driver False"
        and w = "snd (close (sample_driver False) fresh)" and q = "''SELECT 1''"
        and ps = "[]" and lg = True and queries = sample_queries and cb = sample_callback,
        THEN conjunct2, rule_format, OF p]
    by simp
qed

text \<open>
  Claim C7 does not hold of the code. An update or a delete whose \<open>conditions\<close> are
  absent is rejected; one whose \<open>conditions\<close> are an empty object passes
  \<open>!operation.conditions\<close>, is compiled to a statement with nothing after \<open>WHERE\<close> and
  is handed to \<open>executeTransaction\<close>.
\<close>

theorem simpleTransaction_empty_conditions:
  "build_query delete_all = Inr (''DELETE FROM users WHERE '', [])
   \<and> build_query update_all = Inr (''UPDATE users SET role = ? WHERE '', [JString ''admin''])
   \<and> simpleTransaction drv [delete_all] lg w
       = executeTransaction drv [(''DELETE FROM users WHERE '', Some [])] lg w
   \<and> build_query (delete_all\<lparr> conditions := None \<rparr>)
       = Inl (badRequest ''Delete operation requires conditions'' None)"
  by (simp add: build_query_def delete_all_def update_all_def simpleTransaction_def)

end
